theory Spec2Isabelle
  imports Complex_Main "HOL-Library.Sublist"
begin

section \<open>JavaScript strings\<close>

text \<open>
  A string is a list of characters. The text handled here is ASCII: \<open>toLowerCase\<close>
  maps the letters \<open>A\<close> to \<open>Z\<close> to \<open>a\<close> to \<open>z\<close> and leaves every other
  character as it is, and \<open>trim\<close> removes tab, line feed, vertical tab, form
  feed, carriage return and space from both ends.
\<close>

definition lower_char :: "char \<Rightarrow> char" where
  "lower_char c =
     (let n = (of_char c :: nat) in if 65 \<le> n \<and> n \<le> 90 then char_of (n + 32) else c)"

definition toLowerCase :: "string \<Rightarrow> string" where
  "toLowerCase s = map lower_char s"

text \<open>\<open>text.includes(needle)\<close>: the needle occurs as a contiguous piece of the text.\<close>

definition str_includes :: "string \<Rightarrow> string \<Rightarrow> bool" where
  "str_includes text needle = sublist needle text"

definition is_space :: "char \<Rightarrow> bool" where
  "is_space c = ((of_char c :: nat) \<in> {9, 10, 11, 12, 13, 32})"

definition trim :: "string \<Rightarrow> string" where
  "trim s = rev (dropWhile is_space (rev (dropWhile is_space s)))"

text \<open>
  A number inside a template literal is written in decimal digits.
\<close>

definition digit_char :: "nat \<Rightarrow> char" where
  "digit_char n = (if n < 10 then char_of (48 + n) else char_of (87 + n))"

fun show_nat :: "nat \<Rightarrow> string" where
  "show_nat n = (if n < 10 then [digit_char n] else show_nat (n div 10) @ [digit_char (n mod 10)])"

section \<open>The priority classifier of \<open>POST /api/messages\<close>\<close>

text \<open>
  The block of the handler that fills \<open>messageData.priority\<close> from the request's
  \<open>subject\<close>, \<open>message\<close> and optional \<open>category\<close> (\<open>None\<close> is \<open>undefined\<close>).
\<close>

definition classify :: "string \<Rightarrow> string \<Rightarrow> string option \<Rightarrow> string" where
  "classify subject message category =
     (let text = toLowerCase (subject @ '' '' @ message) in
      if str_includes text ''ceo'' \<or> str_includes text ''urgent'' \<or> str_includes text ''important''
        then ''CEO''
      else if category = Some ''sales'' \<or> str_includes text ''sales manager''
        then ''Sales Manager''
      else if category = Some ''herbs'' \<or> str_includes text ''herb'' \<or> str_includes text ''natural''
        then ''Herbs Priority''
      else if category = Some ''complaint''
        then ''high''
      else ''medium'')"

subsection \<open>The classifier as the specification words it\<close>

text \<open>
  The specification's rule table, read literally: the search is over
  \<open>subject + " " + message\<close> itself, and a keyword is found when some window of the text
  equals it up to letter case.
\<close>

definition same_ignoring_case :: "string \<Rightarrow> string \<Rightarrow> bool" where
  "same_ignoring_case a b = (toLowerCase a = toLowerCase b)"

definition contains_ci :: "string \<Rightarrow> string \<Rightarrow> bool" where
  "contains_ci text kw =
     list_ex (\<lambda>i. same_ignoring_case (take (length kw) (drop i text)) kw)
       [0..<Suc (length text)]"

definition spec_priority :: "string \<Rightarrow> string \<Rightarrow> string option \<Rightarrow> string" where
  "spec_priority subject message category =
     (let text = subject @ '' '' @ message in
      if contains_ci text ''ceo'' \<or> contains_ci text ''urgent'' \<or> contains_ci text ''important''
        then ''CEO''
      else if category = Some ''sales'' \<or> contains_ci text ''sales manager''
        then ''Sales Manager''
      else if category = Some ''herbs'' \<or> contains_ci text ''herb'' \<or> contains_ci text ''natural''
        then ''Herbs Priority''
      else if category = Some ''complaint''
        then ''high''
      else ''medium'')"

section \<open>Numbers read from the query string\<close>

text \<open>
  \<open>parseInt(v)\<close> on a query parameter (\<open>None\<close> is an absent parameter, which
  JavaScript reads as the text "undefined"): leading white space is skipped, then an
  optional sign, then an optional \<open>0x\<close> that switches to radix 16, then the longest
  run of digits. No digit at all gives \<open>NaN\<close>, here \<open>None\<close>. Numbers are integers:
  the values of interest are far inside the range a double holds exactly.
\<close>

definition digit_of :: "nat \<Rightarrow> char \<Rightarrow> nat option" where
  "digit_of radix c =
     (let n = (of_char c :: nat);
          d = (if 48 \<le> n \<and> n \<le> 57 then Some (n - 48)
               else if 97 \<le> n \<and> n \<le> 122 then Some (n - 87)
               else if 65 \<le> n \<and> n \<le> 90 then Some (n - 55)
               else None)
      in case d of None \<Rightarrow> None | Some v \<Rightarrow> if v < radix then Some v else None)"

definition is_digit :: "nat \<Rightarrow> char \<Rightarrow> bool" where
  "is_digit radix c = (digit_of radix c \<noteq> None)"

definition digits_value :: "nat \<Rightarrow> string \<Rightarrow> nat" where
  "digits_value radix ds =
     foldl (\<lambda>acc c. case digit_of radix c of None \<Rightarrow> acc | Some v \<Rightarrow> acc * radix + v) 0 ds"

definition strip_sign :: "string \<Rightarrow> int \<times> string" where
  "strip_sign s =
     (case s of
        [] \<Rightarrow> (1, s)
      | c # r \<Rightarrow> if c = CHR ''-'' then (- 1, r) else if c = CHR ''+'' then (1, r) else (1, s))"

definition parseInt :: "string option \<Rightarrow> int option" where
  "parseInt v =
     (case v of
        None \<Rightarrow> None
      | Some str \<Rightarrow>
          (let (sign, s) = strip_sign (dropWhile is_space str);
               (radix, s') = (if prefix ''0x'' s \<or> prefix ''0X'' s then (16, drop 2 s) else (10, s));
               z = takeWhile (is_digit radix) s'
           in if z = [] then None else Some (sign * int (digits_value radix z))))"

text \<open>\<open>parseInt(v) || d\<close>: \<open>NaN\<close> and \<open>0\<close> are falsy and give the default.\<close>

definition or_default :: "int option \<Rightarrow> int \<Rightarrow> int" where
  "or_default n d = (case n of None \<Rightarrow> d | Some k \<Rightarrow> if k = 0 then d else k)"

text \<open>
  The validator \<open>isInt({min, max})\<close> of the query chains: the text is an optional
  sign and at least one decimal digit, and its value lies within the bounds given.
  \<open>optional()\<close> lets an absent parameter pass.
\<close>

definition int_syntax :: "string \<Rightarrow> bool" where
  "int_syntax s = (let b = snd (strip_sign s) in b \<noteq> [] \<and> list_all (is_digit 10) b)"

definition number_of :: "string \<Rightarrow> int" where
  "number_of s = (let (sign, b) = strip_sign s in sign * int (digits_value 10 b))"

definition isInt :: "int option \<Rightarrow> int option \<Rightarrow> string \<Rightarrow> bool" where
  "isInt mn mx s =
     (int_syntax s
      \<and> (case mn of None \<Rightarrow> True | Some lo \<Rightarrow> lo \<le> number_of s)
      \<and> (case mx of None \<Rightarrow> True | Some hi \<Rightarrow> number_of s \<le> hi))"

definition optional :: "(string \<Rightarrow> bool) \<Rightarrow> string option \<Rightarrow> bool" where
  "optional check v = (case v of None \<Rightarrow> True | Some s \<Rightarrow> check s)"

section \<open>Responses\<close>

text \<open>
  Every handler answers \<open>{success, data?, message?, pagination?}\<close> under a status
  code: \<open>Success\<close> carries the code and the payload, \<open>Failure\<close> the code and the
  message.
\<close>

datatype 'a response = Success nat 'a | Failure nat string

fun status :: "'a response \<Rightarrow> nat" where
  "status (Success c _) = c"
| "status (Failure c _) = c"

record pagination =
  current :: int
  pages :: int
  total :: nat
  limit :: int

record 'a list_body =
  data :: "'a list"
  pagination :: pagination

section \<open>The paginated list endpoints\<close>

text \<open>
  \<open>find(filter).sort(...).skip(skip).limit(limit)\<close> on the documents that match the
  filter, already in sort order. The store refuses a negative skip; a negative limit
  is read as its absolute value and a limit of zero as no limit.
\<close>

datatype store_error = CastError | ValidationError | DuplicateKey | MongoError

definition skip_limit :: "int \<Rightarrow> int \<Rightarrow> 'a list \<Rightarrow> store_error + 'a list" where
  "skip_limit skip lmt xs =
     (if skip < 0 then Inl MongoError
      else if lmt = 0 then Inr (drop (nat skip) xs)
      else Inr (take (nat \<bar>lmt\<bar>) (drop (nat skip) xs)))"

text \<open>
  The body shared by the five list handlers once \<open>page\<close> and \<open>limit\<close> are known:
  the page of documents, \<open>countDocuments(filter)\<close>, and
  \<open>Math.ceil(total / limit)\<close>; any store error is caught and answered with 500
  and a message that names what was being fetched.
\<close>

definition paged_response :: "string \<Rightarrow> int \<Rightarrow> int \<Rightarrow> 'a list \<Rightarrow> 'a list_body response" where
  "paged_response what page lmt matching =
     (let skip = (page - 1) * lmt in
      case skip_limit skip lmt matching of
        Inl e \<Rightarrow> Failure 500 (''Server error while fetching '' @ what)
      | Inr docs \<Rightarrow>
          Success 200
            \<lparr> data = docs,
              pagination =
                \<lparr> current = page,
                  pages = \<lceil>real (length matching) / real_of_int lmt\<rceil>,
                  total = length matching,
                  limit = lmt \<rparr> \<rparr>)"

text \<open>
  The list endpoints that paginate. All but Products declare
  \<open>query('page').optional().isInt({ min: 1 })\<close> and
  \<open>query('limit').optional().isInt({ min: 1, max: 100 })\<close> and answer 400 when a
  validator fails; Products declares no validator. Each has its own default limit.
\<close>

datatype resource = Products | Certificates | Team | Categories | Messages

fun default_limit :: "resource \<Rightarrow> int" where
  "default_limit Products = 100"
| "default_limit Certificates = 10"
| "default_limit Team = 10"
| "default_limit Categories = 50"
| "default_limit Messages = 10"

fun validates_query :: "resource \<Rightarrow> bool" where
  "validates_query Products = False"
| "validates_query Certificates = True"
| "validates_query Team = True"
| "validates_query Categories = True"
| "validates_query Messages = True"

fun fetched :: "resource \<Rightarrow> string" where
  "fetched Products = ''products''"
| "fetched Certificates = ''certificates''"
| "fetched Team = ''team members''"
| "fetched Categories = ''categories''"
| "fetched Messages = ''messages''"

definition paging_valid :: "string option \<Rightarrow> string option \<Rightarrow> bool" where
  "paging_valid pageParam limitParam =
     (optional (isInt (Some 1) None) pageParam \<and> optional (isInt (Some 1) (Some 100)) limitParam)"

definition requested_page :: "string option \<Rightarrow> int" where
  "requested_page pageParam = or_default (parseInt pageParam) 1"

definition effective_limit :: "resource \<Rightarrow> string option \<Rightarrow> int" where
  "effective_limit r limitParam = or_default (parseInt limitParam) (default_limit r)"

text \<open>
  A list handler, given the \<open>page\<close> and \<open>limit\<close> parameters, whether the endpoint's
  other validators (search length, category, department) accept the request, and the
  stored documents that match the filter, newest first.
\<close>

definition list_endpoint ::
  "resource \<Rightarrow> bool \<Rightarrow> string option \<Rightarrow> string option \<Rightarrow> 'a list \<Rightarrow> 'a list_body response" where
  "list_endpoint r others_valid pageParam limitParam matching =
     (if validates_query r \<and> \<not> (paging_valid pageParam limitParam \<and> others_valid)
        then Failure 400 ''Validation failed''
      else paged_response (fetched r) (requested_page pageParam) (effective_limit r limitParam)
             matching)"

text \<open>The specification's \<open>ceil(total / limit)\<close>, in integer arithmetic.\<close>

definition ceil_div :: "nat \<Rightarrow> int \<Rightarrow> int" where
  "ceil_div t l = (int t + l - 1) div l"

section \<open>Products and their list endpoint\<close>

text \<open>
  An \<open>ObjectId\<close> is twelve bytes, written as 24 lower-case hexadecimal digits. A
  text is cast to one when it is 24 hexadecimal digits, or twelve characters that are
  taken as the bytes themselves; \<open>ObjectId.isValid\<close> accepts the same texts. Dates
  are milliseconds since the epoch.
\<close>

type_synonym oid = string
type_synonym date = nat

definition hex_of_bytes :: "string \<Rightarrow> string" where
  "hex_of_bytes s =
     concat (map (\<lambda>c. [digit_char ((of_char c :: nat) div 16), digit_char ((of_char c :: nat) mod 16)]) s)"

definition castObjectId :: "string \<Rightarrow> oid option" where
  "castObjectId s =
     (if length s = 24 \<and> list_all (is_digit 16) s then Some (toLowerCase s)
      else if length s = 12 then Some (hex_of_bytes s)
      else None)"

definition isValidObjectId :: "string \<Rightarrow> bool" where
  "isValidObjectId s = (castObjectId s \<noteq> None)"

text \<open>The Product schema, with the \<open>_id\<close> and the two timestamps the store adds.\<close>

record product =
  p_id :: oid
  p_name :: string
  p_description :: string
  p_image :: string
  p_imagePublicId :: "string option"
  p_category :: oid
  p_price :: "real option"
  p_inStock :: bool
  p_featured :: bool
  p_tags :: "string list"
  p_nutritionalInfo :: "(string \<times> real) list"
  p_origin :: "string option"
  p_certifications :: "string list"
  p_createdAt :: date
  p_updatedAt :: date

text \<open>\<open>req.query\<close> of \<open>GET /api/products\<close>: each parameter is absent or a text.\<close>

record products_query =
  q_page :: "string option"
  q_limit :: "string option"
  q_category :: "string option"
  q_search :: "string option"
  q_featured :: "string option"
  q_inStock :: "string option"

text \<open>The \<open>filter\<close> object the handler builds: a condition per key it sets.\<close>

record product_filter =
  f_category :: "oid option"
  f_featured :: "bool option"
  f_inStock :: "bool option"
  f_text :: "string option"

definition build_filter :: "products_query \<Rightarrow> product_filter" where
  "build_filter q =
     \<lparr> f_category =
         (case q_category q of
            None \<Rightarrow> None
          | Some c \<Rightarrow> if c \<noteq> [] \<and> isValidObjectId c then castObjectId c else None),
       f_featured = (case q_featured q of None \<Rightarrow> None | Some v \<Rightarrow> Some (v = ''true'')),
       f_inStock = (case q_inStock q of None \<Rightarrow> None | Some v \<Rightarrow> Some (v = ''true'')),
       f_text = (case q_search q of None \<Rightarrow> None | Some s \<Rightarrow> if s \<noteq> [] then Some s else None) \<rparr>"

text \<open>
  Whether a stored product satisfies the filter. The full-text search of the store is
  a parameter \<open>txt\<close>: it is given the search text and the values of the fields the
  schema's text index names (name, description, tags).
\<close>

definition matches_product ::
  "(string \<Rightarrow> string list \<Rightarrow> bool) \<Rightarrow> product_filter \<Rightarrow> product \<Rightarrow> bool" where
  "matches_product txt f p =
     ((case f_category f of None \<Rightarrow> True | Some c \<Rightarrow> p_category p = c)
      \<and> (case f_featured f of None \<Rightarrow> True | Some b \<Rightarrow> p_featured p = b)
      \<and> (case f_inStock f of None \<Rightarrow> True | Some b \<Rightarrow> p_inStock p = b)
      \<and> (case f_text f of None \<Rightarrow> True | Some s \<Rightarrow> txt s (p_name p # p_description p # p_tags p)))"

text \<open>\<open>sort({ createdAt: -1 })\<close>.\<close>

definition newest_first :: "('a \<Rightarrow> date) \<Rightarrow> 'a list \<Rightarrow> 'a list" where
  "newest_first created xs = rev (sort_key created xs)"

text \<open>
  \<open>GET /api/products\<close>: no validator; \<open>page\<close> and \<open>limit\<close> are parsed with the
  defaults 1 and 100, the filter is built, and the page and the count are read.
\<close>

definition get_products ::
  "(string \<Rightarrow> string list \<Rightarrow> bool) \<Rightarrow> products_query \<Rightarrow> product list \<Rightarrow> product list_body response" where
  "get_products txt q db =
     (let page = or_default (parseInt (q_page q)) 1;
          lmt = or_default (parseInt (q_limit q)) 100;
          filter_obj = build_filter q
      in paged_response ''products'' page lmt
           (newest_first p_createdAt (filter (matches_product txt filter_obj) db)))"

text \<open>A stored product for the worked examples: only the flags, id and date vary.\<close>

definition sample_product :: "oid \<Rightarrow> bool \<Rightarrow> bool \<Rightarrow> date \<Rightarrow> product" where
  "sample_product i stock feat t =
     \<lparr> p_id = i, p_name = ''Mint'', p_description = ''Dried mint leaves'',
       p_image = ''https://via.placeholder.com/300x300?text=No+Image'',
       p_imagePublicId = None, p_category = ''64b7f0c2a1b2c3d4e5f60718'',
       p_price = None, p_inStock = stock, p_featured = feat, p_tags = [],
       p_nutritionalInfo = [], p_origin = None, p_certifications = [],
       p_createdAt = t, p_updatedAt = t \<rparr>"


section \<open>Deleting a category\<close>

text \<open>
  Modelled from the spec: the Category schema (\<open>models/Category.js\<close> is not among
  the sources). A category has a name, unique up to letter case; the store adds the
  \<open>_id\<close> and the timestamps. The handlers only read \<open>_id\<close> and \<open>name\<close>.
\<close>

record category =
  c_id :: oid
  c_name :: string
  c_createdAt :: date
  c_updatedAt :: date

record catalog =
  categories :: "category list"
  products :: "product list"

text \<open>
  \<open>Model.findById(id)\<close>: the text is cast to an \<open>ObjectId\<close>, which fails with a
  \<open>CastError\<close>; otherwise the answer is the document with that \<open>_id\<close>, or \<open>null\<close>.
\<close>

definition findById :: "('a \<Rightarrow> oid) \<Rightarrow> string \<Rightarrow> 'a list \<Rightarrow> store_error + 'a option" where
  "findById ident idParam docs =
     (case castObjectId idParam of
        None \<Rightarrow> Inl CastError
      | Some i \<Rightarrow> Inr (find (\<lambda>d. ident d = i) docs))"

text \<open>\<open>Model.findByIdAndDelete(id)\<close> removes the one document with that \<open>_id\<close>.\<close>

fun delete_first :: "('a \<Rightarrow> bool) \<Rightarrow> 'a list \<Rightarrow> 'a list" where
  "delete_first P [] = []"
| "delete_first P (x # xs) = (if P x then xs else x # delete_first P xs)"

definition findByIdAndDelete :: "('a \<Rightarrow> oid) \<Rightarrow> string \<Rightarrow> 'a list \<Rightarrow> store_error + 'a list" where
  "findByIdAndDelete ident idParam docs =
     (case castObjectId idParam of
        None \<Rightarrow> Inl CastError
      | Some i \<Rightarrow> Inr (delete_first (\<lambda>d. ident d = i) docs))"

text \<open>The \<open>catch\<close> block of \<open>DELETE /api/categories/:id\<close>.\<close>

definition delete_category_catch :: "store_error \<Rightarrow> string response" where
  "delete_category_catch e =
     (if e = CastError then Failure 400 ''Invalid category ID''
      else Failure 500 ''Server error while deleting category'')"

text \<open>
  \<open>DELETE /api/categories/:id\<close>, once \<open>adminAuth\<close> has let the request through:
  the answer and the catalog afterwards.
\<close>

definition delete_category :: "string \<Rightarrow> catalog \<Rightarrow> string response \<times> catalog" where
  "delete_category idParam db =
     (case findById c_id idParam (categories db) of
        Inl e \<Rightarrow> (delete_category_catch e, db)
      | Inr None \<Rightarrow> (Failure 404 ''Category not found'', db)
      | Inr (Some cat) \<Rightarrow>
          (let productCount = length (filter (\<lambda>p. p_category p = c_id cat) (products db)) in
           if productCount > 0
             then (Failure 400
                     (''Cannot delete category. It has '' @ show_nat productCount
                        @ '' products. Please move or delete the products first.''), db)
           else
             (case findByIdAndDelete c_id idParam (categories db) of
                Inl e \<Rightarrow> (delete_category_catch e, db)
              | Inr cs \<Rightarrow> (Success 200 ''Category deleted successfully'', db\<lparr>categories := cs\<rparr>))))"

text \<open>A catalog for the worked examples: two categories, three herbs.\<close>

definition sample_catalog :: catalog where
  "sample_catalog =
     \<lparr> categories =
         [\<lparr> c_id = ''64b7f0c2a1b2c3d4e5f60718'', c_name = ''Herbs'', c_createdAt = 1, c_updatedAt = 1 \<rparr>,
          \<lparr> c_id = ''64b7f0c2a1b2c3d4e5f60719'', c_name = ''Seeds'', c_createdAt = 2, c_updatedAt = 2 \<rparr>],
       products =
         [sample_product ''a1'' True False 5, sample_product ''a2'' False False 6,
          sample_product ''a3'' True True 7] \<rparr>"

section \<open>Messages\<close>

subsection \<open>The Message schema\<close>

record message_note =
  n_content :: string
  n_addedBy :: "oid option"
  n_addedAt :: date

text \<open>
  A stored message: the paths of \<open>messageSchema\<close>, the \<open>_id\<close>, and the
  \<open>createdAt\<close> and \<open>updatedAt\<close> that \<open>timestamps: true\<close> adds.
\<close>

record message =
  m_id :: oid
  m_name :: string
  m_email :: string
  m_phone :: "string option"
  m_subject :: string
  m_message :: string
  m_isRead :: bool
  m_readAt :: "date option"
  m_replied :: bool
  m_repliedAt :: "date option"
  m_priority :: string
  m_category :: string
  m_source :: string
  m_ipAddress :: "string option"
  m_userAgent :: "string option"
  m_notes :: "message_note list"
  m_createdAt :: date
  m_updatedAt :: date

text \<open>
  Library code the routes and the schema call and that is not part of the repository:
  the \<open>isEmail\<close> validator and the \<open>normalizeEmail\<close> sanitizer of the request
  chain, and the regular expression of the schema's \<open>match\<close> on \<open>email\<close>.
\<close>

record env =
  isEmail :: "string \<Rightarrow> bool"
  normalizeEmail :: "string \<Rightarrow> string"
  email_pattern :: "string \<Rightarrow> bool"

definition priority_enum :: "string list" where
  "priority_enum = [''low'', ''medium'', ''high'']"

definition category_enum :: "string list" where
  "category_enum = [''general'', ''support'', ''sales'', ''partnership'', ''complaint'', ''other'']"

definition source_enum :: "string list" where
  "source_enum = [''website'', ''email'', ''phone'', ''social'', ''other'']"

text \<open>
  The schema's validators, as \<open>save()\<close> runs them: \<open>required\<close> on a string asks
  for a non-empty one, \<open>maxlength\<close> bounds the length, \<open>enum\<close> asks for a member of
  the list, \<open>match\<close> for the pattern. The document is valid when every path is.
  (The store library checks the required and the modified paths of a loaded document;
  on a document that was valid when it was stored this is the same check.)
\<close>

definition validate_note :: "message_note \<Rightarrow> bool" where
  "validate_note n = (n_content n \<noteq> [] \<and> length (n_content n) \<le> 500)"

definition validate_message :: "env \<Rightarrow> message \<Rightarrow> bool" where
  "validate_message e m =
     (m_name m \<noteq> [] \<and> length (m_name m) \<le> 100
      \<and> m_email m \<noteq> [] \<and> email_pattern e (m_email m)
      \<and> (case m_phone m of None \<Rightarrow> True | Some p \<Rightarrow> length p \<le> 20)
      \<and> m_subject m \<noteq> [] \<and> length (m_subject m) \<le> 200
      \<and> m_message m \<noteq> [] \<and> length (m_message m) \<le> 2000
      \<and> m_priority m \<in> set priority_enum
      \<and> m_category m \<in> set category_enum
      \<and> m_source m \<in> set source_enum
      \<and> list_all validate_note (m_notes m))"

subsection \<open>The collection\<close>

text \<open>
  \<open>save()\<close> of a new document: validation, then the insert, which the store refuses
  when the \<open>_id\<close> is taken; the timestamps are set to the time of the save.
\<close>

definition save_new :: "env \<Rightarrow> date \<Rightarrow> message \<Rightarrow> message list \<Rightarrow> store_error + (message \<times> message list)" where
  "save_new e now doc store =
     (if \<not> validate_message e doc then Inl ValidationError
      else if list_ex (\<lambda>d. m_id d = m_id doc) store then Inl DuplicateKey
      else (let saved = doc\<lparr>m_createdAt := now, m_updatedAt := now\<rparr>
            in Inr (saved, store @ [saved])))"

fun replace_first :: "('a \<Rightarrow> bool) \<Rightarrow> 'a \<Rightarrow> 'a list \<Rightarrow> 'a list" where
  "replace_first P y [] = []"
| "replace_first P y (x # xs) = (if P x then y # xs else x # replace_first P y xs)"

text \<open>
  \<open>save()\<close> of a document that was loaded as \<open>old\<close> and now reads \<open>new\<close>:
  validation, then, when something was modified, the write, with \<open>updatedAt\<close> set to
  the time of the save (the schema option \<open>timestamps: true\<close>). One clock
  reading \<open>now\<close> stands for the handler's \<open>new Date()\<close> and for the time of the
  save.
\<close>

definition save_existing ::
  "env \<Rightarrow> date \<Rightarrow> message \<Rightarrow> message \<Rightarrow> message list \<Rightarrow> store_error + (message \<times> message list)" where
  "save_existing e now old new store =
     (if \<not> validate_message e new then Inl ValidationError
      else if new = old then Inr (old, store)
      else (let saved = new\<lparr>m_updatedAt := now\<rparr>
            in Inr (saved, replace_first (\<lambda>d. m_id d = m_id old) saved store)))"

subsection \<open>\<open>POST /api/messages\<close>\<close>

text \<open>\<open>req.body\<close> of the contact form: each field is absent or a text.\<close>

record message_body =
  b_name :: "string option"
  b_email :: "string option"
  b_phone :: "string option"
  b_subject :: "string option"
  b_message :: "string option"
  b_category :: "string option"

record post_request =
  rq_body :: message_body
  rq_ip :: "string option"
  rq_userAgent :: "string option"

definition route_categories :: "string list" where
  "route_categories =
     [''general'', ''support'', ''sales'', ''partnership'', ''complaint'', ''herbs'', ''other'']"

definition route_priorities :: "string list" where
  "route_priorities = [''low'', ''medium'', ''high'', ''CEO'', ''Sales Manager'', ''Herbs Priority'']"

text \<open>A sanitizer reads an absent field as the empty text.\<close>

definition text_of :: "string option \<Rightarrow> string" where
  "text_of v = (case v of None \<Rightarrow> [] | Some s \<Rightarrow> s)"

definition isLength :: "nat \<Rightarrow> nat \<Rightarrow> string \<Rightarrow> bool" where
  "isLength lo hi s = (lo \<le> length s \<and> length s \<le> hi)"

text \<open>The validation chains of the route, and the body as the sanitizers leave it.\<close>

definition post_validators :: "env \<Rightarrow> message_body \<Rightarrow> bool" where
  "post_validators e b =
     (isLength 1 100 (trim (text_of (b_name b)))
      \<and> isEmail e (text_of (b_email b))
      \<and> isLength 1 200 (trim (text_of (b_subject b)))
      \<and> isLength 1 2000 (trim (text_of (b_message b)))
      \<and> optional (\<lambda>p. isLength 0 20 (trim p)) (b_phone b)
      \<and> optional (\<lambda>v. v \<in> set route_categories) (b_category b))"

definition sanitize_body :: "env \<Rightarrow> message_body \<Rightarrow> message_body" where
  "sanitize_body e b =
     b\<lparr> b_name := Some (trim (text_of (b_name b))),
        b_email := Some (normalizeEmail e (text_of (b_email b))),
        b_subject := Some (trim (text_of (b_subject b))),
        b_message := Some (trim (text_of (b_message b))),
        b_phone := map_option trim (b_phone b) \<rparr>"

text \<open>The \<open>messageData\<close> object the handler fills.\<close>

record message_data =
  md_name :: string
  md_email :: string
  md_subject :: string
  md_message :: string
  md_ipAddress :: "string option"
  md_userAgent :: "string option"
  md_phone :: "string option"
  md_category :: "string option"
  md_priority :: string

definition truthy :: "string option \<Rightarrow> string option" where
  "truthy v = (case v of None \<Rightarrow> None | Some s \<Rightarrow> if s = [] then None else Some s)"

definition build_message_data :: "env \<Rightarrow> post_request \<Rightarrow> message_data" where
  "build_message_data e req =
     (let b = sanitize_body e (rq_body req);
          subject = text_of (b_subject b);
          message = text_of (b_message b);
          category = b_category b
      in \<lparr> md_name = text_of (b_name b),
           md_email = text_of (b_email b),
           md_subject = subject,
           md_message = message,
           md_ipAddress = rq_ip req,
           md_userAgent = rq_userAgent req,
           md_phone = truthy (b_phone b),
           md_category = truthy category,
           md_priority = classify subject message category \<rparr>)"

text \<open>
  \<open>new Message(messageData)\<close>: the schema's setters (\<open>trim\<close>, \<open>lowercase\<close>) and
  defaults; the timestamps are set on save.
\<close>

definition new_Message :: "oid \<Rightarrow> message_data \<Rightarrow> message" where
  "new_Message newId md =
     \<lparr> m_id = newId,
       m_name = trim (md_name md),
       m_email = trim (toLowerCase (md_email md)),
       m_phone = map_option trim (md_phone md),
       m_subject = trim (md_subject md),
       m_message = trim (md_message md),
       m_isRead = False,
       m_readAt = None,
       m_replied = False,
       m_repliedAt = None,
       m_priority = md_priority md,
       m_category = (case md_category md of None \<Rightarrow> ''general'' | Some c \<Rightarrow> c),
       m_source = ''website'',
       m_ipAddress = md_ipAddress md,
       m_userAgent = md_userAgent md,
       m_notes = [],
       m_createdAt = 0,
       m_updatedAt = 0 \<rparr>"

text \<open>The payload of the 201 answer.\<close>

record created =
  cr_id :: oid
  cr_name :: string
  cr_subject :: string
  cr_priority :: string
  cr_createdAt :: date

text \<open>
  The handler, given the library, the clock, the \<open>_id\<close> drawn for the new document,
  the request and the collection: the answer and the collection afterwards. Its
  \<open>catch\<close> answers every error with 500.
\<close>

definition post_message ::
  "env \<Rightarrow> date \<Rightarrow> oid \<Rightarrow> post_request \<Rightarrow> message list \<Rightarrow> created response \<times> message list" where
  "post_message e now newId req store =
     (if \<not> post_validators e (rq_body req) then (Failure 400 ''Validation failed'', store)
      else
        (case save_new e now (new_Message newId (build_message_data e req)) store of
           Inl err \<Rightarrow> (Failure 500 ''Server error while sending message'', store)
         | Inr (newMessage, store') \<Rightarrow>
             (Success 201
                \<lparr> cr_id = m_id newMessage, cr_name = m_name newMessage,
                  cr_subject = m_subject newMessage, cr_priority = m_priority newMessage,
                  cr_createdAt = m_createdAt newMessage \<rparr>,
              store')))"

subsection \<open>\<open>PUT /api/messages/:id\<close>\<close>

text \<open>
  A JSON value of the body where a boolean is expected. \<open>isBoolean\<close> accepts
  \<open>true\<close>, \<open>false\<close>, \<open>1\<close>, \<open>0\<close> and their texts; assignment to a Boolean path
  casts them; a condition reads the raw value by JavaScript's truthiness.
\<close>

datatype json = JBool bool | JStr string | JNum int

fun isBoolean :: "json \<Rightarrow> bool" where
  "isBoolean (JBool b) = True"
| "isBoolean (JStr s) = (s \<in> set [''true'', ''false'', ''1'', ''0''])"
| "isBoolean (JNum n) = (n = 0 \<or> n = 1)"

fun castBoolean :: "json \<Rightarrow> bool option" where
  "castBoolean (JBool b) = Some b"
| "castBoolean (JStr s) =
     (if s \<in> set [''true'', ''1'', ''yes''] then Some True
      else if s \<in> set [''false'', ''0'', ''no''] then Some False
      else None)"
| "castBoolean (JNum n) = (if n = 1 then Some True else if n = 0 then Some False else None)"

fun json_truthy :: "json \<Rightarrow> bool" where
  "json_truthy (JBool b) = b"
| "json_truthy (JStr s) = (s \<noteq> [])"
| "json_truthy (JNum n) = (n \<noteq> 0)"

record update_body =
  u_isRead :: "json option"
  u_replied :: "json option"
  u_priority :: "string option"
  u_category :: "string option"

definition optional_json :: "(json \<Rightarrow> bool) \<Rightarrow> json option \<Rightarrow> bool" where
  "optional_json check v = (case v of None \<Rightarrow> True | Some j \<Rightarrow> check j)"

definition put_validators :: "update_body \<Rightarrow> bool" where
  "put_validators b =
     (optional_json isBoolean (u_isRead b)
      \<and> optional_json isBoolean (u_replied b)
      \<and> optional (\<lambda>v. v \<in> set route_priorities) (u_priority b)
      \<and> optional (\<lambda>v. v \<in> set route_categories) (u_category b))"

text \<open>
  The assignments of the handler on the loaded document. A value that cannot be cast
  to a boolean makes the save fail; the validators let none through.
\<close>

definition assign_isRead :: "date \<Rightarrow> json option \<Rightarrow> message \<Rightarrow> store_error + message" where
  "assign_isRead now v m =
     (case v of
        None \<Rightarrow> Inr m
      | Some j \<Rightarrow>
          (case castBoolean j of
             None \<Rightarrow> Inl ValidationError
           | Some b \<Rightarrow>
               (let m' = m\<lparr>m_isRead := b\<rparr>
                in Inr (if json_truthy j \<and> m_readAt m' = None then m'\<lparr>m_readAt := Some now\<rparr> else m'))))"

definition assign_replied :: "date \<Rightarrow> json option \<Rightarrow> message \<Rightarrow> store_error + message" where
  "assign_replied now v m =
     (case v of
        None \<Rightarrow> Inr m
      | Some j \<Rightarrow>
          (case castBoolean j of
             None \<Rightarrow> Inl ValidationError
           | Some b \<Rightarrow>
               (let m' = m\<lparr>m_replied := b\<rparr>
                in Inr (if json_truthy j \<and> m_repliedAt m' = None then m'\<lparr>m_repliedAt := Some now\<rparr> else m'))))"

definition assign_labels :: "update_body \<Rightarrow> message \<Rightarrow> message" where
  "assign_labels b m =
     (let m1 = (case truthy (u_priority b) of None \<Rightarrow> m | Some p \<Rightarrow> m\<lparr>m_priority := p\<rparr>)
      in (case truthy (u_category b) of None \<Rightarrow> m1 | Some c \<Rightarrow> m1\<lparr>m_category := c\<rparr>))"

text \<open>
  The \<open>catch\<close> block shared by \<open>PUT /:id\<close> and \<open>GET /:id\<close>, up to the message.
  Both handlers are taken from the point where \<open>adminAuth\<close> has let the request
  through.
\<close>

definition message_catch :: "string \<Rightarrow> store_error \<Rightarrow> message response" where
  "message_catch what err =
     (if err = CastError then Failure 400 ''Invalid message ID''
      else Failure 500 (''Server error while '' @ what @ '' message''))"

definition put_message ::
  "env \<Rightarrow> date \<Rightarrow> string \<Rightarrow> update_body \<Rightarrow> message list \<Rightarrow> message response \<times> message list" where
  "put_message e now idParam b store =
     (if \<not> put_validators b then (Failure 400 ''Validation failed'', store)
      else
        (case findById m_id idParam store of
           Inl err \<Rightarrow> (message_catch ''updating'' err, store)
         | Inr None \<Rightarrow> (Failure 404 ''Message not found'', store)
         | Inr (Some message) \<Rightarrow>
             (case assign_isRead now (u_isRead b) message of
                Inl err \<Rightarrow> (message_catch ''updating'' err, store)
              | Inr m1 \<Rightarrow>
                  (case assign_replied now (u_replied b) m1 of
                     Inl err \<Rightarrow> (message_catch ''updating'' err, store)
                   | Inr m2 \<Rightarrow>
                       (case save_existing e now message (assign_labels b m2) store of
                          Inl err \<Rightarrow> (message_catch ''updating'' err, store)
                        | Inr (saved, store') \<Rightarrow> (Success 200 saved, store'))))))"

subsection \<open>\<open>GET /api/messages/:id\<close>\<close>

text \<open>
  The document is loaded; one that is unread is marked read, stamped with the time and
  saved; the answer carries the document. (The \<open>populate\<close> of the note authors only
  shapes the answer and is left out.)
\<close>

definition get_message ::
  "env \<Rightarrow> date \<Rightarrow> string \<Rightarrow> message list \<Rightarrow> message response \<times> message list" where
  "get_message e now idParam store =
     (case findById m_id idParam store of
        Inl err \<Rightarrow> (message_catch ''fetching'' err, store)
      | Inr None \<Rightarrow> (Failure 404 ''Message not found'', store)
      | Inr (Some message) \<Rightarrow>
          (if \<not> m_isRead message
             then (case save_existing e now message
                          (message\<lparr>m_isRead := True, m_readAt := Some now\<rparr>) store of
                     Inl err \<Rightarrow> (message_catch ''fetching'' err, store)
                   | Inr (saved, store') \<Rightarrow> (Success 200 saved, store'))
           else (Success 200 message, store)))"

subsection \<open>Runs of the message routes\<close>

text \<open>
  A request to one of the three routes that write messages, stamped with the time it
  is handled and, for a creation, the \<open>_id\<close> drawn for the document.
\<close>

datatype request =
    PostMessage date oid post_request
  | PutMessage date string update_body
  | GetMessage date string

fun step :: "env \<Rightarrow> request \<Rightarrow> message list \<Rightarrow> message list" where
  "step e (PostMessage now newId req) store = snd (post_message e now newId req store)"
| "step e (PutMessage now idParam b) store = snd (put_message e now idParam b store)"
| "step e (GetMessage now idParam) store = snd (get_message e now idParam store)"

fun run :: "env \<Rightarrow> request list \<Rightarrow> message list \<Rightarrow> message list" where
  "run e [] store = store"
| "run e (r # rs) store = run e rs (step e r store)"

text \<open>The invariant of the collection: every stored priority is a member of the schema's enum.\<close>

definition priorities_in_enum :: "message list \<Rightarrow> bool" where
  "priorities_in_enum store = list_all (\<lambda>m. m_priority m \<in> set priority_enum) store"

subsection \<open>Worked examples\<close>

text \<open>
  For the examples the library is replaced by stand-ins: an address is any text with
  an \<open>@\<close>, and normalising lower-cases it.
\<close>

definition sample_env :: env where
  "sample_env =
     \<lparr> isEmail = (\<lambda>s. CHR ''@'' \<in> set s),
       normalizeEmail = toLowerCase,
       email_pattern = (\<lambda>s. CHR ''@'' \<in> set s) \<rparr>"

definition contact_form :: "string \<Rightarrow> string \<Rightarrow> string option \<Rightarrow> post_request" where
  "contact_form subject message category =
     \<lparr> rq_body =
         \<lparr> b_name = Some ''Amina'', b_email = Some ''amina@example.com'', b_phone = None,
           b_subject = Some subject, b_message = Some message, b_category = category \<rparr>,
       rq_ip = Some ''203.0.113.7'',
       rq_userAgent = Some ''Mozilla/5.0'' \<rparr>"

definition sample_message :: "oid \<Rightarrow> bool \<Rightarrow> message" where
  "sample_message i isread =
     \<lparr> m_id = i, m_name = ''Amina'', m_email = ''amina@example.com'', m_phone = None,
       m_subject = ''hi'', m_message = ''just saying hello'', m_isRead = isread,
       m_readAt = (if isread then Some 2 else None), m_replied = False, m_repliedAt = None,
       m_priority = ''medium'', m_category = ''general'', m_source = ''website'',
       m_ipAddress = Some ''203.0.113.7'', m_userAgent = Some ''Mozilla/5.0'', m_notes = [],
       m_createdAt = 1, m_updatedAt = 1 \<rparr>"

definition sample_inbox :: "message list" where
  "sample_inbox =
     [sample_message ''64b7f0c2a1b2c3d4e5f60001'' True,
      sample_message ''64b7f0c2a1b2c3d4e5f60002'' False]"

definition other_form :: "string \<Rightarrow> string \<Rightarrow> string option \<Rightarrow> post_request" where
  "other_form subject message category =
     \<lparr> rq_body =
         \<lparr> b_name = Some ''Omar'', b_email = Some ''Omar@Example.org'', b_phone = Some ''+20 100 000 0000'',
           b_subject = Some subject, b_message = Some message, b_category = category \<rparr>,
       rq_ip = None,
       rq_userAgent = None \<rparr>"

section \<open>The dashboard overview\<close>

text \<open>
  \<open>Message.countDocuments(conditions)\<close> with equality conditions \<open>{path: value}\<close>.
  The conditions reach the store as written. A stored document has the paths of its
  schema and no other, and it satisfies \<open>{path: value}\<close> when it has the path with
  that value; a path it does not have equals no boolean, text or date.
\<close>

datatype field_value = VBool bool | VStr string | VDate date | VId oid

definition message_field :: "message \<Rightarrow> string \<Rightarrow> field_value option" where
  "message_field m path =
     (if path = ''_id'' then Some (VId (m_id m))
      else if path = ''name'' then Some (VStr (m_name m))
      else if path = ''email'' then Some (VStr (m_email m))
      else if path = ''phone'' then map_option VStr (m_phone m)
      else if path = ''subject'' then Some (VStr (m_subject m))
      else if path = ''message'' then Some (VStr (m_message m))
      else if path = ''isRead'' then Some (VBool (m_isRead m))
      else if path = ''readAt'' then map_option VDate (m_readAt m)
      else if path = ''replied'' then Some (VBool (m_replied m))
      else if path = ''repliedAt'' then map_option VDate (m_repliedAt m)
      else if path = ''priority'' then Some (VStr (m_priority m))
      else if path = ''category'' then Some (VStr (m_category m))
      else if path = ''source'' then Some (VStr (m_source m))
      else if path = ''ipAddress'' then map_option VStr (m_ipAddress m)
      else if path = ''userAgent'' then map_option VStr (m_userAgent m)
      else if path = ''createdAt'' then Some (VDate (m_createdAt m))
      else if path = ''updatedAt'' then Some (VDate (m_updatedAt m))
      else None)"

definition satisfies :: "(string \<times> field_value) list \<Rightarrow> message \<Rightarrow> bool" where
  "satisfies conditions m = list_all (\<lambda>(path, v). message_field m path = Some v) conditions"

definition countDocuments :: "(string \<times> field_value) list \<Rightarrow> message list \<Rightarrow> nat" where
  "countDocuments conditions docs = length (filter (satisfies conditions) docs)"

text \<open>
  The collections the overview counts. The Certificate and TeamMember documents are
  only counted, so their types are left open.
\<close>

record ('c, 't) database =
  db_categories :: "category list"
  db_products :: "product list"
  db_certificates :: "'c list"
  db_team :: "'t list"
  db_messages :: "message list"

text \<open>The \<open>count\<close> of each entry of \<open>stats\<close> in the answer of \<open>GET /overview\<close>.\<close>

record overview_counts =
  st_categories :: nat
  st_products :: nat
  st_certificates :: nat
  st_team :: nat
  st_messages :: nat
  st_unreadMessages :: nat
  st_contactMethods :: nat

definition dashboard_overview :: "('c, 't) database \<Rightarrow> overview_counts" where
  "dashboard_overview db =
     \<lparr> st_categories = length (db_categories db),
       st_products = length (db_products db),
       st_certificates = length (db_certificates db),
       st_team = length (db_team db),
       st_messages = countDocuments [] (db_messages db),
       st_unreadMessages = countDocuments [(''read'', VBool False)] (db_messages db),
       st_contactMethods = countDocuments [] (db_messages db) \<rparr>"

definition sample_database :: "(unit, unit) database" where
  "sample_database =
     \<lparr> db_categories = [], db_products = [], db_certificates = [], db_team = [],
       db_messages =
         [sample_message ''64b7f0c2a1b2c3d4e5f60001'' False,
          sample_message ''64b7f0c2a1b2c3d4e5f60002'' True,
          sample_message ''64b7f0c2a1b2c3d4e5f60003'' False] \<rparr>"

section \<open>Properties of the classifier\<close>

lemma sublist_iff_window:
  "sublist xs ys \<longleftrightarrow> (\<exists>i<Suc (length ys). take (length xs) (drop i ys) = xs)"
proof
  assume "sublist xs ys"
  then obtain ps ss where ys: "ys = ps @ xs @ ss"
    by (auto simp: sublist_def)
  have "take (length xs) (drop (length ps) ys) = xs"
    by (simp add: ys)
  moreover have "length ps < Suc (length ys)"
    by (simp add: ys)
  ultimately show "\<exists>i<Suc (length ys). take (length xs) (drop i ys) = xs"
    by blast
next
  assume "\<exists>i<Suc (length ys). take (length xs) (drop i ys) = xs"
  then obtain i where i: "take (length xs) (drop i ys) = xs"
    by blast
  have "sublist (take (length xs) (drop i ys)) (drop i ys)"
    by (rule sublist_take)
  moreover have "sublist (drop i ys) ys"
    by (rule sublist_drop)
  ultimately have "sublist (take (length xs) (drop i ys)) ys"
    by (rule sublist_order.order_trans)
  then show "sublist xs ys"
    by (simp add: i)
qed

lemma includes_lower_iff:
  assumes "toLowerCase kw = kw"
  shows "str_includes (toLowerCase text) kw = contains_ci text kw"
proof -
  have "str_includes (toLowerCase text) kw
          \<longleftrightarrow> (\<exists>i<Suc (length text). take (length kw) (drop i (toLowerCase text)) = kw)"
    by (simp add: str_includes_def sublist_iff_window toLowerCase_def)
  also have "\<dots> \<longleftrightarrow> (\<exists>i<Suc (length text).
                 toLowerCase (take (length kw) (drop i text)) = toLowerCase kw)"
    by (simp add: toLowerCase_def take_map drop_map assms[unfolded toLowerCase_def])
  also have "\<dots> \<longleftrightarrow> contains_ci text kw"
    unfolding contains_ci_def same_ignoring_case_def list_ex_iff set_upt
    by (simp only: atLeastLessThan_iff Bex_def) blast
  finally show ?thesis .
qed

lemma keywords_lower_case:
  "toLowerCase ''ceo'' = ''ceo''" "toLowerCase ''urgent'' = ''urgent''"
  "toLowerCase ''important'' = ''important''" "toLowerCase ''sales manager'' = ''sales manager''"
  "toLowerCase ''herb'' = ''herb''" "toLowerCase ''natural'' = ''natural''"
  by code_simp+

text \<open>
  C1. The label the handler computes is the one the specification's rule table gives:
  the first rule that matches wins, the keywords are searched in
  \<open>subject + " " + message\<close> without regard to letter case, and a text with both
  "urgent" and "sales manager" is labelled \<open>CEO\<close>.
\<close>

theorem classifier_first_match_wins:
  "classify subject message category = spec_priority subject message category
   \<and> (contains_ci (subject @ '' '' @ message) ''urgent''
        \<and> contains_ci (subject @ '' '' @ message) ''sales manager''
      \<longrightarrow> classify subject message category = ''CEO'')"
  by (simp add: classify_def spec_priority_def Let_def includes_lower_iff keywords_lower_case)

theorem classifier_first_match_wins_witness:
  "contains_ci (''URGENT'' @ '' '' @ ''ask the Sales Manager'') ''urgent''
   \<and> contains_ci (''URGENT'' @ '' '' @ ''ask the Sales Manager'') ''sales manager''
   \<and> classify ''URGENT'' ''ask the Sales Manager'' (Some ''sales'') = ''CEO''
   \<and> spec_priority ''URGENT'' ''ask the Sales Manager'' (Some ''sales'') = ''CEO''"
proof -
  have u: "contains_ci (''URGENT'' @ '' '' @ ''ask the Sales Manager'') ''urgent''"
    by code_simp
  have s: "contains_ci (''URGENT'' @ '' '' @ ''ask the Sales Manager'') ''sales manager''"
    by code_simp
  note t = classifier_first_match_wins
    [of "''URGENT''" "''ask the Sales Manager''" "Some ''sales''"]
  from t u s have c: "classify ''URGENT'' ''ask the Sales Manager'' (Some ''sales'') = ''CEO''"
    by blast
  from t c have "spec_priority ''URGENT'' ''ask the Sales Manager'' (Some ''sales'') = ''CEO''"
    by simp
  with u s c show ?thesis by blast
qed

section \<open>Properties of the list endpoints\<close>

lemma ceil_div_bounds:
  assumes "0 < l"
  shows "int t \<le> ceil_div t l * l" "(ceil_div t l - 1) * l < int t"
proof -
  let ?a = "int t + l - 1"
  have m: "?a = ?a div l * l + ?a mod l"
    by simp
  have r: "0 \<le> ?a mod l" "?a mod l < l"
    using assms by simp_all
  show "int t \<le> ceil_div t l * l"
    unfolding ceil_div_def using m r by linarith
  have "(?a div l - 1) * l = ?a div l * l - l"
    by (simp add: algebra_simps)
  then show "(ceil_div t l - 1) * l < int t"
    unfolding ceil_div_def using m r by linarith
qed

lemma ceiling_is_ceil_div:
  assumes "0 < l"
  shows "\<lceil>real t / real_of_int l\<rceil> = ceil_div t l"
proof (rule ceiling_unique)
  have l: "0 < real_of_int l"
    using assms by simp
  have "real_of_int ((ceil_div t l - 1) * l) < real_of_int (int t)"
    using ceil_div_bounds(2)[OF assms, of t] by (simp only: of_int_less_iff)
  then have "(real_of_int (ceil_div t l) - 1) * real_of_int l < real t"
    by simp
  then show "real_of_int (ceil_div t l) - 1 < real t / real_of_int l"
    using l by (simp add: pos_less_divide_eq)
  have "real_of_int (int t) \<le> real_of_int (ceil_div t l * l)"
    using ceil_div_bounds(1)[OF assms, of t] by (simp only: of_int_le_iff)
  then have "real t \<le> real_of_int (ceil_div t l) * real_of_int l"
    by simp
  then show "real t / real_of_int l \<le> real_of_int (ceil_div t l)"
    using l by (simp add: pos_divide_le_eq)
qed


lemma paged_response_Success:
  assumes "paged_response what page l matching = Success c body" "0 < l"
  shows "c = 200"
    and "pagination body =
           \<lparr> current = page, pages = ceil_div (length matching) l,
             total = length matching, limit = l \<rparr>"
    and "data body = take (nat \<bar>l\<bar>) (drop (nat ((page - 1) * l)) matching)"
  using assms
  by (auto simp: paged_response_def skip_limit_def Let_def ceiling_is_ceil_div
           split: if_splits)

lemma paged_response_total:
  assumes "1 \<le> page" "0 < l"
  shows "paged_response what page l matching =
           Success 200
             \<lparr> data = take (nat \<bar>l\<bar>) (drop (nat ((page - 1) * l)) matching),
               pagination =
                 \<lparr> current = page, pages = ceil_div (length matching) l,
                   total = length matching, limit = l \<rparr> \<rparr>"
proof -
  have "0 \<le> (page - 1) * l"
    using assms by simp
  then have "\<not> (page - 1) * l < 0"
    by linarith
  then show ?thesis
    using assms(2)
    by (simp add: paged_response_def skip_limit_def Let_def ceiling_is_ceil_div)
qed




subsection \<open>What the query validators guarantee, and where they are missing\<close>

lemma digit_not_space: "is_digit 10 c \<Longrightarrow> \<not> is_space c"
  by (auto simp: is_digit_def digit_of_def is_space_def Let_def split: if_splits)

lemma not_decimal_digits:
  "\<not> is_digit 10 (CHR ''x'')" "\<not> is_digit 10 (CHR ''X'')"
  "\<not> is_digit 10 (CHR ''-'')" "\<not> is_digit 10 (CHR ''+'')"
  "\<not> is_space (CHR ''-'')" "\<not> is_space (CHR ''+'')"
  by code_simp+

lemma all_digits_no_hex_prefix:
  assumes "list_all (is_digit 10) b"
  shows "\<not> prefix ''0x'' b" "\<not> prefix ''0X'' b"
  using assms not_decimal_digits by (auto simp: prefix_def)

text \<open>A text that \<open>isInt\<close> accepts is read by \<open>parseInt\<close> as the number it denotes.\<close>

lemma int_syntax_parseInt:
  assumes "int_syntax s"
  shows "parseInt (Some s) = Some (number_of s)"
proof -
  obtain sg b where sb: "strip_sign s = (sg, b)"
    by (cases "strip_sign s")
  from assms sb have b: "b \<noteq> []" "list_all (is_digit 10) b"
    by (simp_all add: int_syntax_def Let_def)
  have ns: "dropWhile is_space s = s"
  proof (cases s)
    case Nil
    then show ?thesis by simp
  next
    case (Cons c r)
    have "\<not> is_space c"
    proof (cases "c = CHR ''-'' \<or> c = CHR ''+''")
      case True
      then show ?thesis using not_decimal_digits by auto
    next
      case False
      with sb Cons have "b = c # r"
        by (simp add: strip_sign_def)
      with b have "is_digit 10 c" by simp
      then show ?thesis by (rule digit_not_space)
    qed
    with Cons show ?thesis by simp
  qed
  have tw: "takeWhile (is_digit 10) b = b"
    using b(2) by (simp add: list_all_iff)
  have "parseInt (Some s) =
          (let z = takeWhile (is_digit 10) b
           in if z = [] then None else Some (sg * int (digits_value 10 z)))"
    using sb ns all_digits_no_hex_prefix[OF b(2)]
    by (simp add: parseInt_def)
  also have "\<dots> = Some (sg * int (digits_value 10 b))"
    unfolding tw Let_def using b(1) by simp
  finally show ?thesis
    using sb by (simp add: number_of_def)
qed

lemma optional_isInt_value:
  assumes "optional (isInt (Some lo) hi) v" "1 \<le> lo"
  shows "lo \<le> or_default (parseInt v) d \<or> v = None"
    and "v = None \<longrightarrow> or_default (parseInt v) d = d"
    and "hi = Some h \<longrightarrow> v \<noteq> None \<longrightarrow> or_default (parseInt v) d \<le> h"
proof -
  show "v = None \<longrightarrow> or_default (parseInt v) d = d"
    by (simp add: parseInt_def or_default_def)
  show "lo \<le> or_default (parseInt v) d \<or> v = None"
  proof (cases v)
    case None
    then show ?thesis by simp
  next
    case (Some s)
    with assms have "int_syntax s" "lo \<le> number_of s"
      by (simp_all add: optional_def isInt_def)
    with int_syntax_parseInt[of s] assms(2) Some show ?thesis
      by (simp add: or_default_def)
  qed
  show "hi = Some h \<longrightarrow> v \<noteq> None \<longrightarrow> or_default (parseInt v) d \<le> h"
  proof (intro impI)
    assume h: "hi = Some h" and "v \<noteq> None"
    then obtain s where s: "v = Some s" by auto
    with assms h have "int_syntax s" "lo \<le> number_of s" "number_of s \<le> h"
      by (simp_all add: optional_def isInt_def)
    with int_syntax_parseInt[of s] assms(2) s show "or_default (parseInt v) d \<le> h"
      by (simp add: or_default_def)
  qed
qed

text \<open>
  On the four endpoints that declare the validators, every page that is served has
  a positive page number and a limit between 1 and 100, with the defaults for absent
  parameters.
\<close>

lemma validated_paging_bounds:
  assumes "validates_query r" "list_endpoint r ok pp lp matching = Success c body"
  shows "1 \<le> current (pagination body)"
    and "1 \<le> limit (pagination body)" and "limit (pagination body) \<le> 100"
    and "pp = None \<longrightarrow> current (pagination body) = 1"
    and "lp = None \<longrightarrow> limit (pagination body) = default_limit r"
proof -
  from assms have v: "paging_valid pp lp"
    and p: "paged_response (fetched r) (requested_page pp) (effective_limit r lp) matching
              = Success c body"
    by (simp_all add: list_endpoint_def split: if_splits)
  from v have vp: "optional (isInt (Some 1) None) pp"
    and vl: "optional (isInt (Some 1) (Some 100)) lp"
    by (simp_all add: paging_valid_def)
  have d: "1 \<le> default_limit r" "default_limit r \<le> 100"
    by (cases r; simp)+
  have pg: "1 \<le> requested_page pp" "pp = None \<longrightarrow> requested_page pp = 1"
    using optional_isInt_value(1,2)[OF vp, of 1] by (auto simp: requested_page_def)
  have lm: "1 \<le> effective_limit r lp" "effective_limit r lp \<le> 100"
    "lp = None \<longrightarrow> effective_limit r lp = default_limit r"
    using optional_isInt_value(1,2)[OF vl, of "default_limit r"]
      optional_isInt_value(3)[OF vl, where h = 100 and d = "default_limit r"] d
    by (auto simp: effective_limit_def)
  from lm(1) have "0 < effective_limit r lp" by simp
  note q = paged_response_Success(2)[OF p this]
  show "1 \<le> current (pagination body)" using q pg by simp
  show "1 \<le> limit (pagination body)" using q lm by simp
  show "limit (pagination body) \<le> 100" using q lm by simp
  show "pp = None \<longrightarrow> current (pagination body) = 1" using q pg by simp
  show "lp = None \<longrightarrow> limit (pagination body) = default_limit r" using q lm by simp
qed

lemma unbounded_sample:
  "effective_limit Products (Some ''1000'') = 1000"
  "requested_page None = 1"
  "ceil_div 3 1000 = 1"
  "paging_valid None (Some ''1000'') = False"
  by code_simp+

text \<open>
  C4. The claim fails on \<open>GET /api/products\<close>: the handler declares no validator,
  so \<open>limit=1000\<close> is served with an effective limit of 1000, where the same request
  on \<open>GET /api/team\<close> is refused with 400.
\<close>

theorem products_limit_not_capped:
  "list_endpoint Products True None (Some ''1000'') [''a'', ''b'', ''c''] =
     Success 200
       \<lparr> data = [''a'', ''b'', ''c''],
         pagination = \<lparr> current = 1, pages = 1, total = 3, limit = 1000 \<rparr> \<rparr>
   \<and> list_endpoint Team True None (Some ''1000'') [''a'', ''b'', ''c''] =
       Failure 400 ''Validation failed''"
proof -
  have "paged_response ''products'' 1 1000 [''a'', ''b'', ''c''] =
          Success 200
            \<lparr> data = [''a'', ''b'', ''c''],
              pagination = \<lparr> current = 1, pages = ceil_div 3 1000, total = 3, limit = 1000 \<rparr> \<rparr>"
    using paged_response_total[of 1 1000 "''products''" "[''a'', ''b'', ''c'']"]
    by (simp add: numeral_3_eq_3)
  then show ?thesis
    by (simp add: list_endpoint_def unbounded_sample)
qed

subsection \<open>The boolean filters of the Products list\<close>


text \<open>The Products handler is the list endpoint without validators.\<close>

lemma get_products_is_list_endpoint:
  "get_products txt q db =
     list_endpoint Products ok (q_page q) (q_limit q)
       (newest_first p_createdAt (filter (matches_product txt (build_filter q)) db))"
  by (simp add: get_products_def list_endpoint_def requested_page_def effective_limit_def Let_def)






subsection \<open>The category deletion guard\<close>

lemma digit_of_digit_char: "d < 10 \<Longrightarrow> digit_of 10 (digit_char d) = Some d"
  by (simp add: digit_of_def digit_char_def Let_def)

lemma digits_value_snoc:
  "digits_value r (ds @ [c]) =
     (case digit_of r c of None \<Rightarrow> digits_value r ds | Some v \<Rightarrow> digits_value r ds * r + v)"
  by (simp add: digits_value_def split: option.splits)

text \<open>\<open>show_nat\<close> writes the decimal numeral: reading it back gives the number.\<close>

lemma show_nat_value: "digits_value 10 (show_nat n) = n"
proof (induction n rule: show_nat.induct)
  case (1 n)
  show ?case
  proof (cases "n < 10")
    case True
    then show ?thesis
      by (simp add: digits_value_def digit_of_digit_char)
  next
    case False
    then have "show_nat n = show_nat (n div 10) @ [digit_char (n mod 10)]"
      by (simp del: show_nat.simps add: show_nat.simps[of n])
    then show ?thesis
      using 1[OF False] by (simp add: digits_value_snoc digit_of_digit_char del: show_nat.simps)
  qed
qed

lemma delete_first_subset: "set (delete_first P xs) \<subseteq> set xs"
  by (induction xs) auto

lemma delete_first_keeps: "x \<in> set xs \<Longrightarrow> \<not> P x \<Longrightarrow> x \<in> set (delete_first P xs)"
  by (induction xs) auto

lemma find_delete_first:
  assumes "distinct (map f xs)"
  shows "find (\<lambda>d. f d = i) (delete_first (\<lambda>d. f d = i) xs) = None"
  using assms
proof (induction xs)
  case Nil
  then show ?case by simp
next
  case (Cons x xs)
  show ?case
  proof (cases "f x = i")
    case True
    with Cons.prems have "i \<notin> f ` set xs" by auto
    then have "find (\<lambda>d. f d = i) xs = None"
      by (auto simp: find_None_iff)
    with True show ?thesis by simp
  next
    case False
    with Cons show ?thesis by simp
  qed
qed

text \<open>
  C6. For a deletion request that names a stored category referenced by \<open>N\<close>
  products: if \<open>N > 0\<close> the answer is 400, the catalog is unchanged (the category
  remains stored) and the message contains the decimal numeral of \<open>N\<close>; if \<open>N = 0\<close>
  the answer is a success, the category can no longer be found, and every other
  category and every product is still stored.
\<close>

theorem category_deletion_guard:
  assumes "findById c_id idParam (categories db) = Inr (Some cat)"
      and "distinct (map c_id (categories db))"
  shows
    "(0 < length (filter (\<lambda>p. p_category p = c_id cat) (products db)) \<longrightarrow>
        (\<exists>msg. delete_category idParam db = (Failure 400 msg, db)
               \<and> str_includes msg
                   (show_nat (length (filter (\<lambda>p. p_category p = c_id cat) (products db)))))
        \<and> digits_value 10 (show_nat (length (filter (\<lambda>p. p_category p = c_id cat) (products db))))
            = length (filter (\<lambda>p. p_category p = c_id cat) (products db)))
     \<and> (length (filter (\<lambda>p. p_category p = c_id cat) (products db)) = 0 \<longrightarrow>
          (\<exists>db'. delete_category idParam db = (Success 200 ''Category deleted successfully'', db')
                 \<and> findById c_id idParam (categories db') = Inr None
                 \<and> products db' = products db
                 \<and> set (categories db') \<subseteq> set (categories db)
                 \<and> (\<forall>c \<in> set (categories db). c_id c \<noteq> c_id cat \<longrightarrow> c \<in> set (categories db'))))"
proof (intro conjI impI)
  let ?n = "length (filter (\<lambda>p. p_category p = c_id cat) (products db))"
  let ?msg = "''Cannot delete category. It has '' @ show_nat ?n
                @ '' products. Please move or delete the products first.''"
  assume n: "0 < ?n"
  have "delete_category idParam db = (Failure 400 ?msg, db)"
    using assms(1) n by (simp add: delete_category_def Let_def del: show_nat.simps)
  moreover have "str_includes ?msg (show_nat ?n)"
    unfolding str_includes_def by (rule sublist_appendI)
  ultimately show "\<exists>msg. delete_category idParam db = (Failure 400 msg, db)
                         \<and> str_includes msg (show_nat ?n)"
    by blast
  show "digits_value 10 (show_nat ?n) = ?n"
    by (rule show_nat_value)
next
  assume z: "length (filter (\<lambda>p. p_category p = c_id cat) (products db)) = 0"
  from assms(1) obtain i where i: "castObjectId idParam = Some i"
    and f: "find (\<lambda>d. c_id d = i) (categories db) = Some cat"
    by (auto simp: findById_def split: option.splits)
  from f have ci: "c_id cat = i"
    by (auto simp: find_Some_iff)
  let ?cs = "delete_first (\<lambda>d. c_id d = i) (categories db)"
  let ?db = "db\<lparr>categories := ?cs\<rparr>"
  have d: "delete_category idParam db = (Success 200 ''Category deleted successfully'', ?db)"
    using assms(1) z i
    by (simp add: delete_category_def findByIdAndDelete_def Let_def del: show_nat.simps)
  have g: "findById c_id idParam (categories ?db) = Inr None"
    using i find_delete_first[OF assms(2), of i] by (simp add: findById_def)
  have s: "set (categories ?db) \<subseteq> set (categories db)"
    using delete_first_subset[of "\<lambda>d. c_id d = i" "categories db"] by simp
  have k: "\<forall>c \<in> set (categories db). c_id c \<noteq> c_id cat \<longrightarrow> c \<in> set (categories ?db)"
    using delete_first_keeps[of _ "categories db" "\<lambda>d. c_id d = i"] ci by simp
  have "products ?db = products db"
    by simp
  with d g s k
  show "\<exists>db'. delete_category idParam db = (Success 200 ''Category deleted successfully'', db')
              \<and> findById c_id idParam (categories db') = Inr None
              \<and> products db' = products db
              \<and> set (categories db') \<subseteq> set (categories db)
              \<and> (\<forall>c \<in> set (categories db). c_id c \<noteq> c_id cat \<longrightarrow> c \<in> set (categories db'))"
    by blast
qed

lemma catalog_sample:
  "findById c_id ''64b7f0c2a1b2c3d4e5f60718'' (categories sample_catalog) =
     Inr (Some \<lparr> c_id = ''64b7f0c2a1b2c3d4e5f60718'', c_name = ''Herbs'',
                  c_createdAt = 1, c_updatedAt = 1 \<rparr>)"
  "distinct (map c_id (categories sample_catalog))"
  "length (filter (\<lambda>p. p_category p = ''64b7f0c2a1b2c3d4e5f60718'') (products sample_catalog)) = 3"
  "show_nat 3 = ''3''"
  "delete_category ''64b7f0c2a1b2c3d4e5f60718'' sample_catalog =
     (Failure 400
        ''Cannot delete category. It has 3 products. Please move or delete the products first.'',
      sample_catalog)"
  "str_includes
     ''Cannot delete category. It has 3 products. Please move or delete the products first.''
     ''3''"
  by code_simp+

lemma catalog_sample_unused:
  "findById c_id ''64b7f0c2a1b2c3d4e5f60719'' (categories sample_catalog) =
     Inr (Some \<lparr> c_id = ''64b7f0c2a1b2c3d4e5f60719'', c_name = ''Seeds'',
                  c_createdAt = 2, c_updatedAt = 2 \<rparr>)"
  "length (filter (\<lambda>p. p_category p = ''64b7f0c2a1b2c3d4e5f60719'') (products sample_catalog)) = 0"
  "delete_category ''64b7f0c2a1b2c3d4e5f60719'' sample_catalog =
     (Success 200 ''Category deleted successfully'',
      sample_catalog\<lparr>categories :=
        [\<lparr> c_id = ''64b7f0c2a1b2c3d4e5f60718'', c_name = ''Herbs'',
            c_createdAt = 1, c_updatedAt = 1 \<rparr>]\<rparr>)"
  by code_simp+

theorem category_deletion_guard_witness:
  "findById c_id ''64b7f0c2a1b2c3d4e5f60718'' (categories sample_catalog) =
     Inr (Some \<lparr> c_id = ''64b7f0c2a1b2c3d4e5f60718'', c_name = ''Herbs'',
                  c_createdAt = 1, c_updatedAt = 1 \<rparr>)
   \<and> distinct (map c_id (categories sample_catalog))
   \<and> length (filter (\<lambda>p. p_category p = ''64b7f0c2a1b2c3d4e5f60718'') (products sample_catalog)) = 3
   \<and> delete_category ''64b7f0c2a1b2c3d4e5f60718'' sample_catalog =
       (Failure 400
          ''Cannot delete category. It has 3 products. Please move or delete the products first.'',
        sample_catalog)
   \<and> digits_value 10 (show_nat 3) = 3
   \<and> findById c_id ''64b7f0c2a1b2c3d4e5f60719''
        (categories (snd (delete_category ''64b7f0c2a1b2c3d4e5f60719'' sample_catalog))) = Inr None"
proof -
  note t = category_deletion_guard[OF catalog_sample(1,2)]
  have "0 < length (filter (\<lambda>p. p_category p = c_id \<lparr> c_id = ''64b7f0c2a1b2c3d4e5f60718'',
          c_name = ''Herbs'', c_createdAt = 1, c_updatedAt = 1 \<rparr>) (products sample_catalog))"
    by (simp add: catalog_sample(3))
  with t have "digits_value 10 (show_nat (length (filter (\<lambda>p. p_category p =
          c_id \<lparr> c_id = ''64b7f0c2a1b2c3d4e5f60718'', c_name = ''Herbs'',
                 c_createdAt = 1, c_updatedAt = 1 \<rparr>) (products sample_catalog)))) =
        length (filter (\<lambda>p. p_category p = c_id \<lparr> c_id = ''64b7f0c2a1b2c3d4e5f60718'',
          c_name = ''Herbs'', c_createdAt = 1, c_updatedAt = 1 \<rparr>) (products sample_catalog))"
    by blast
  then have a: "digits_value 10 (show_nat 3) = 3"
    by (simp add: catalog_sample(3) del: show_nat.simps)
  note u = category_deletion_guard[OF catalog_sample_unused(1) catalog_sample(2)]
  have "length (filter (\<lambda>p. p_category p = c_id \<lparr> c_id = ''64b7f0c2a1b2c3d4e5f60719'',
          c_name = ''Seeds'', c_createdAt = 2, c_updatedAt = 2 \<rparr>) (products sample_catalog)) = 0"
    using catalog_sample_unused(2) by simp
  with u obtain db' where
    "delete_category ''64b7f0c2a1b2c3d4e5f60719'' sample_catalog =
       (Success 200 ''Category deleted successfully'', db')"
    "findById c_id ''64b7f0c2a1b2c3d4e5f60719'' (categories db') = Inr None"
    by blast
  then have b: "findById c_id ''64b7f0c2a1b2c3d4e5f60719''
        (categories (snd (delete_category ''64b7f0c2a1b2c3d4e5f60719'' sample_catalog))) = Inr None"
    by simp
  from catalog_sample(1,2,3,5) a b show ?thesis
    by blast
qed

section \<open>Properties of the message routes\<close>

subsection \<open>What a save lets into the collection\<close>

lemma validate_message_priority:
  "validate_message e m \<Longrightarrow> m_priority m \<in> {''low'', ''medium'', ''high''}"
  by (auto simp: validate_message_def priority_enum_def)

lemma validate_message_timestamps:
  "validate_message e (m\<lparr>m_createdAt := a, m_updatedAt := b\<rparr>) = validate_message e m"
  "validate_message e (m\<lparr>m_updatedAt := b\<rparr>) = validate_message e m"
  "validate_message e (m\<lparr>m_createdAt := a\<rparr>) = validate_message e m"
  by (simp_all add: validate_message_def)

lemma replace_first_set:
  "set (replace_first P y xs) \<subseteq> insert y (set xs)"
  by (induction xs) auto

lemma save_new_result:
  assumes "save_new e now doc store = Inr (saved, store')"
  shows "validate_message e saved" "set store' = insert saved (set store)"
    "m_priority saved = m_priority doc"
  using assms
  by (auto simp: save_new_def Let_def validate_message_timestamps split: if_splits)

lemma save_existing_result:
  assumes "save_existing e now old new store = Inr (saved, store')"
  shows "validate_message e new" "set store' \<subseteq> insert saved (set store)"
    "m_priority saved = m_priority new"
proof -
  from assms show v: "validate_message e new"
    by (auto simp: save_existing_def split: if_splits)
  from assms show "set store' \<subseteq> insert saved (set store)"
    using replace_first_set[of "\<lambda>d. m_id d = m_id old" saved store]
    by (auto simp: save_existing_def Let_def split: if_splits)
  from assms show "m_priority saved = m_priority new"
    by (auto simp: save_existing_def Let_def split: if_splits)
qed

lemma save_new_errors:
  "save_new e now doc store = Inl err \<Longrightarrow> err = ValidationError \<or> err = DuplicateKey"
  by (auto simp: save_new_def Let_def split: if_splits)

text \<open>Each handler keeps the priority of every stored message inside the enum.\<close>

lemma priorities_in_enum_iff:
  "priorities_in_enum store \<longleftrightarrow> (\<forall>m \<in> set store. m_priority m \<in> {''low'', ''medium'', ''high''})"
  by (auto simp: priorities_in_enum_def list_all_iff priority_enum_def)

lemma post_message_keeps_enum:
  assumes "priorities_in_enum store"
  shows "priorities_in_enum (snd (post_message e now newId req store))"
proof (cases "post_message e now newId req store = (fst (post_message e now newId req store), store)")
  case True
  then have "snd (post_message e now newId req store) = store"
    by (metis snd_conv)
  with assms show ?thesis by simp
next
  case False
  then obtain saved store' where
    s: "save_new e now (new_Message newId (build_message_data e req)) store = Inr (saved, store')"
    and p: "snd (post_message e now newId req store) = store'"
    by (auto simp: post_message_def split: if_splits sum.splits)
  from save_new_result(1,2)[OF s] validate_message_priority[of e saved] assms
  have "priorities_in_enum store'"
    by (auto simp: priorities_in_enum_iff)
  with p show ?thesis by simp
qed

lemma put_message_keeps_enum:
  assumes "priorities_in_enum store"
  shows "priorities_in_enum (snd (put_message e now idParam b store))"
proof (cases "snd (put_message e now idParam b store) = store")
  case True
  with assms show ?thesis by simp
next
  case False
  then obtain old new saved store' where
    s: "save_existing e now old new store = Inr (saved, store')"
    and p: "snd (put_message e now idParam b store) = store'"
    by (auto simp: put_message_def split: if_splits sum.splits option.splits)
  from save_existing_result[OF s] have "validate_message e new" "m_priority saved = m_priority new"
    and sub: "set store' \<subseteq> insert saved (set store)"
    by simp_all
  with validate_message_priority[of e new]
  have "m_priority saved \<in> {''low'', ''medium'', ''high''}"
    by simp
  with sub assms have "priorities_in_enum store'"
    by (auto simp: priorities_in_enum_iff)
  with p show ?thesis by simp
qed

lemma get_message_keeps_enum:
  assumes "priorities_in_enum store"
  shows "priorities_in_enum (snd (get_message e now idParam store))"
proof (cases "snd (get_message e now idParam store) = store")
  case True
  with assms show ?thesis by simp
next
  case False
  then obtain old new saved store' where
    s: "save_existing e now old new store = Inr (saved, store')"
    and p: "snd (get_message e now idParam store) = store'"
    by (auto simp: get_message_def split: if_splits sum.splits option.splits)
  from save_existing_result[OF s] have "validate_message e new" "m_priority saved = m_priority new"
    and sub: "set store' \<subseteq> insert saved (set store)"
    by simp_all
  with validate_message_priority[of e new]
  have "m_priority saved \<in> {''low'', ''medium'', ''high''}"
    by simp
  with sub assms have "priorities_in_enum store'"
    by (auto simp: priorities_in_enum_iff)
  with p show ?thesis by simp
qed

lemma step_keeps_enum:
  "priorities_in_enum store \<Longrightarrow> priorities_in_enum (step e r store)"
  by (cases r) (simp_all add: post_message_keeps_enum put_message_keeps_enum get_message_keeps_enum)

lemma run_keeps_enum:
  "priorities_in_enum store \<Longrightarrow> priorities_in_enum (run e rs store)"
  by (induction rs arbitrary: store) (simp_all add: step_keeps_enum)

lemma rejected_labels_not_in_enum:
  assumes "p \<in> {''CEO'', ''Sales Manager'', ''Herbs Priority''}"
  shows "p \<notin> set priority_enum"
  using assms by (auto simp: priority_enum_def)

lemma new_Message_priority: "m_priority (new_Message newId md) = md_priority md"
  by (simp add: new_Message_def)

lemma post_message_rejected_label:
  assumes "md_priority (build_message_data e req) \<in> {''CEO'', ''Sales Manager'', ''Herbs Priority''}"
  shows "save_new e now (new_Message newId (build_message_data e req)) store = Inl ValidationError"
    and "snd (post_message e now newId req store) = store"
    and "status (fst (post_message e now newId req store)) \<in> {400, 500}"
proof -
  have "\<not> validate_message e (new_Message newId (build_message_data e req))"
    using rejected_labels_not_in_enum[OF assms]
    by (simp add: validate_message_def new_Message_priority)
  then show s: "save_new e now (new_Message newId (build_message_data e req)) store
                  = Inl ValidationError"
    by (simp add: save_new_def)
  show "snd (post_message e now newId req store) = store"
    by (simp add: post_message_def s)
  show "status (fst (post_message e now newId req store)) \<in> {400, 500}"
    by (simp add: post_message_def s)
qed

lemma assign_priority:
  assumes "truthy (u_priority b) = Some p"
  shows "m_priority (assign_labels b m) = p"
  using assms by (simp add: assign_labels_def Let_def split: option.splits)

lemma put_message_rejected_label:
  assumes "truthy (u_priority b) = Some p" "p \<in> {''CEO'', ''Sales Manager'', ''Herbs Priority''}"
  shows "snd (put_message e now idParam b store) = store"
    and "status (fst (put_message e now idParam b store)) \<noteq> 200"
proof -
  have v: "\<not> validate_message e (assign_labels b m)" for m
    using rejected_labels_not_in_enum[OF assms(2)] assign_priority[OF assms(1), of m]
    by (simp add: validate_message_def)
  have s: "save_existing e now old (assign_labels b m) store = Inl ValidationError" for old m
    using v[of m] by (simp add: save_existing_def)
  show "snd (put_message e now idParam b store) = store"
    by (simp add: put_message_def s split: sum.splits option.splits)
  show "status (fst (put_message e now idParam b store)) \<noteq> 200"
    by (simp add: put_message_def s message_catch_def split: sum.splits option.splits)
qed

text \<open>
  C2. Starting from a collection whose priorities are in \<open>{low, medium, high}\<close> (the
  empty one, for instance), every run of creations, admin updates and fetches leaves
  every stored priority in that set. A creation whose classifier label is \<open>CEO\<close>,
  \<open>Sales Manager\<close> or \<open>Herbs Priority\<close> stores nothing: when the request passes the
  route's validators the save is rejected with a \<open>ValidationError\<close>. An update that
  sets one of these labels leaves the collection as it was.
\<close>

theorem stored_priority_in_enum:
  assumes "\<forall>m \<in> set store. m_priority m \<in> {''low'', ''medium'', ''high''}"
  shows
    "(\<forall>m \<in> set (run e reqs store). m_priority m \<in> {''low'', ''medium'', ''high''})
     \<and> (md_priority (build_message_data e req) \<in> {''CEO'', ''Sales Manager'', ''Herbs Priority''} \<longrightarrow>
          snd (post_message e now newId req store) = store
          \<and> status (fst (post_message e now newId req store)) \<in> {400, 500}
          \<and> save_new e now (new_Message newId (build_message_data e req)) store
               = Inl ValidationError)
     \<and> (truthy (u_priority b) = Some p \<and> p \<in> {''CEO'', ''Sales Manager'', ''Herbs Priority''} \<longrightarrow>
          snd (put_message e now idParam b store) = store
          \<and> status (fst (put_message e now idParam b store)) \<noteq> 200)"
proof (intro conjI impI)
  from assms have "priorities_in_enum store"
    by (simp add: priorities_in_enum_iff)
  then have "priorities_in_enum (run e reqs store)"
    by (rule run_keeps_enum)
  then show "\<forall>m \<in> set (run e reqs store). m_priority m \<in> {''low'', ''medium'', ''high''}"
    by (simp add: priorities_in_enum_iff)
next
  assume a: "md_priority (build_message_data e req) \<in> {''CEO'', ''Sales Manager'', ''Herbs Priority''}"
  show "snd (post_message e now newId req store) = store"
    by (rule post_message_rejected_label(2)[OF a])
  show "status (fst (post_message e now newId req store)) \<in> {400, 500}"
    by (rule post_message_rejected_label(3)[OF a])
  show "save_new e now (new_Message newId (build_message_data e req)) store = Inl ValidationError"
    by (rule post_message_rejected_label(1)[OF a])
next
  assume a: "truthy (u_priority b) = Some p \<and> p \<in> {''CEO'', ''Sales Manager'', ''Herbs Priority''}"
  then have t: "truthy (u_priority b) = Some p"
    and l: "p \<in> {''CEO'', ''Sales Manager'', ''Herbs Priority''}"
    by simp_all
  show "snd (put_message e now idParam b store) = store"
    by (rule put_message_rejected_label(1)[OF t l])
  show "status (fst (put_message e now idParam b store)) \<noteq> 200"
    by (rule put_message_rejected_label(2)[OF t l])
qed

lemma run_sample:
  "run sample_env
     [PostMessage 10 ''64b7f0c2a1b2c3d4e5f60001'' (contact_form ''hi'' ''just saying hello'' None),
      PostMessage 11 ''64b7f0c2a1b2c3d4e5f60002'' (contact_form ''Urgent request'' ''need help'' None),
      PutMessage 12 ''64b7f0c2a1b2c3d4e5f60001''
        \<lparr> u_isRead = None, u_replied = None, u_priority = Some ''CEO'', u_category = None \<rparr>]
     [] =
   [(sample_message ''64b7f0c2a1b2c3d4e5f60001'' False)\<lparr>m_createdAt := 10, m_updatedAt := 10\<rparr>]"
  "md_priority (build_message_data sample_env (contact_form ''Urgent request'' ''need help'' None))
     = ''CEO''"
  by code_simp+

theorem stored_priority_in_enum_witness:
  "run sample_env
     [PostMessage 10 ''64b7f0c2a1b2c3d4e5f60001'' (contact_form ''hi'' ''just saying hello'' None),
      PostMessage 11 ''64b7f0c2a1b2c3d4e5f60002'' (contact_form ''Urgent request'' ''need help'' None),
      PutMessage 12 ''64b7f0c2a1b2c3d4e5f60001''
        \<lparr> u_isRead = None, u_replied = None, u_priority = Some ''CEO'', u_category = None \<rparr>]
     [] =
   [(sample_message ''64b7f0c2a1b2c3d4e5f60001'' False)\<lparr>m_createdAt := 10, m_updatedAt := 10\<rparr>]
   \<and> m_priority ((sample_message ''64b7f0c2a1b2c3d4e5f60001'' False)
        \<lparr>m_createdAt := 10, m_updatedAt := 10\<rparr>) \<in> {''low'', ''medium'', ''high''}
   \<and> md_priority (build_message_data sample_env (contact_form ''Urgent request'' ''need help'' None))
       = ''CEO''
   \<and> snd (post_message sample_env 11 ''64b7f0c2a1b2c3d4e5f60002''
             (contact_form ''Urgent request'' ''need help'' None) []) = []
   \<and> save_new sample_env 11
        (new_Message ''64b7f0c2a1b2c3d4e5f60002''
           (build_message_data sample_env (contact_form ''Urgent request'' ''need help'' None))) []
       = Inl ValidationError"
proof -
  have e: "\<forall>m \<in> set ([] :: message list). m_priority m \<in> {''low'', ''medium'', ''high''}"
    by simp
  note t = stored_priority_in_enum[OF e, of sample_env _
      "contact_form ''Urgent request'' ''need help'' None" 11 "''64b7f0c2a1b2c3d4e5f60002''"]
  from t have "\<forall>m \<in> set (run sample_env
     [PostMessage 10 ''64b7f0c2a1b2c3d4e5f60001'' (contact_form ''hi'' ''just saying hello'' None),
      PostMessage 11 ''64b7f0c2a1b2c3d4e5f60002'' (contact_form ''Urgent request'' ''need help'' None),
      PutMessage 12 ''64b7f0c2a1b2c3d4e5f60001''
        \<lparr> u_isRead = None, u_replied = None, u_priority = Some ''CEO'', u_category = None \<rparr>]
     []). m_priority m \<in> {''low'', ''medium'', ''high''}"
    by blast
  then have a: "m_priority ((sample_message ''64b7f0c2a1b2c3d4e5f60001'' False)
        \<lparr>m_createdAt := 10, m_updatedAt := 10\<rparr>) \<in> {''low'', ''medium'', ''high''}"
    by (simp only: run_sample(1) list.set insert_iff ball_simps)
  have "md_priority (build_message_data sample_env (contact_form ''Urgent request'' ''need help'' None))
          \<in> {''CEO'', ''Sales Manager'', ''Herbs Priority''}"
    by (simp add: run_sample(2))
  with t have b: "snd (post_message sample_env 11 ''64b7f0c2a1b2c3d4e5f60002''
             (contact_form ''Urgent request'' ''need help'' None) []) = []"
    and c: "save_new sample_env 11
        (new_Message ''64b7f0c2a1b2c3d4e5f60002''
           (build_message_data sample_env (contact_form ''Urgent request'' ''need help'' None))) []
       = Inl ValidationError"
    by blast+
  from run_sample a b c show ?thesis
    by blast
qed

subsection \<open>The answer to a creation that the schema rejects\<close>

lemma post_message_validation_error:
  assumes "post_validators e (rq_body req)"
      and "\<not> validate_message e (new_Message newId (build_message_data e req))"
  shows "post_message e now newId req store
           = (Failure 500 ''Server error while sending message'', store)"
  using assms by (simp add: post_message_def save_new_def)

lemma urgent_request_sample:
  "post_validators sample_env (rq_body (contact_form ''Urgent request'' ''need help'' (Some ''general'')))"
  "\<not> validate_message sample_env
       (new_Message ''64b7f0c2a1b2c3d4e5f60001''
          (build_message_data sample_env
             (contact_form ''Urgent request'' ''need help'' (Some ''general''))))"
  by code_simp+

text \<open>
  C7. The claim fails on \<open>POST /api/messages\<close>: the contact form with subject
  "Urgent request" passes the route's validators, is labelled \<open>CEO\<close>, fails schema
  validation on save, and is answered with 500, not 400.
\<close>

theorem message_validation_error_is_500:
  "post_validators sample_env (rq_body (contact_form ''Urgent request'' ''need help'' (Some ''general'')))
   \<and> save_new sample_env 10
        (new_Message ''64b7f0c2a1b2c3d4e5f60001''
           (build_message_data sample_env
              (contact_form ''Urgent request'' ''need help'' (Some ''general'')))) []
       = Inl ValidationError
   \<and> post_message sample_env 10 ''64b7f0c2a1b2c3d4e5f60001''
        (contact_form ''Urgent request'' ''need help'' (Some ''general'')) []
       = (Failure 500 ''Server error while sending message'', [])"
proof -
  have "save_new sample_env 10
        (new_Message ''64b7f0c2a1b2c3d4e5f60001''
           (build_message_data sample_env
              (contact_form ''Urgent request'' ''need help'' (Some ''general'')))) []
       = Inl ValidationError"
    using urgent_request_sample(2) by (simp add: save_new_def)
  with urgent_request_sample(1)
    post_message_validation_error[OF urgent_request_sample, of 10 "[]"]
  show ?thesis
    by blast
qed

subsection \<open>Fetching a message\<close>

lemma find_first_index:
  assumes "find P xs = Some x"
  shows "\<exists>k < length xs. xs ! k = x \<and> P x \<and> (\<forall>y. replace_first P y xs = xs[k := y])
           \<and> (\<forall>y. P y \<longrightarrow> find P (xs[k := y]) = Some y)"
  using assms
proof (induction xs)
  case Nil
  then show ?case by simp
next
  case (Cons a xs)
  show ?case
  proof (cases "P a")
    case True
    with Cons.prems have "a = x" by simp
    with True have "(a # xs) ! 0 = x \<and> P x \<and> (\<forall>y. replace_first P y (a # xs) = (a # xs)[0 := y])
        \<and> (\<forall>y. P y \<longrightarrow> find P ((a # xs)[0 := y]) = Some y)"
      by simp
    then show ?thesis by blast
  next
    case False
    with Cons.prems have "find P xs = Some x" by simp
    from Cons.IH[OF this] obtain k where k: "k < length xs" "xs ! k = x" "P x"
      "\<forall>y. replace_first P y xs = xs[k := y]"
      "\<forall>y. P y \<longrightarrow> find P (xs[k := y]) = Some y"
      by blast
    with False have "Suc k < length (a # xs) \<and> (a # xs) ! Suc k = x \<and> P x
        \<and> (\<forall>y. replace_first P y (a # xs) = (a # xs)[Suc k := y])
        \<and> (\<forall>y. P y \<longrightarrow> find P ((a # xs)[Suc k := y]) = Some y)"
      by simp
    then show ?thesis by blast
  qed
qed

text \<open>
  C8, as the code has it. Fetching a stored, schema-valid message that was unread
  writes it back with \<open>isRead\<close> true, \<open>readAt\<close> set and, because the schema has
  \<open>timestamps: true\<close>, \<open>updatedAt\<close> set to the time of the save; every other field
  and every other document is as before. Fetching a message that was already read
  changes nothing.
\<close>

theorem fetch_marks_read:
  assumes "findById m_id idParam store = Inr (Some m)"
      and "validate_message e m"
  shows
    "(\<not> m_isRead m \<longrightarrow>
        (\<exists>k < length store.
           store ! k = m
           \<and> get_message e now idParam store =
               (Success 200 (m\<lparr>m_isRead := True, m_readAt := Some now, m_updatedAt := now\<rparr>),
                store[k := m\<lparr>m_isRead := True, m_readAt := Some now, m_updatedAt := now\<rparr>])
           \<and> findById m_id idParam
                 (store[k := m\<lparr>m_isRead := True, m_readAt := Some now, m_updatedAt := now\<rparr>])
               = Inr (Some (m\<lparr>m_isRead := True, m_readAt := Some now, m_updatedAt := now\<rparr>))))
     \<and> (m_isRead m \<longrightarrow> get_message e now idParam store = (Success 200 m, store))"
proof (intro conjI impI)
  assume r: "m_isRead m"
  with assms(1) show "get_message e now idParam store = (Success 200 m, store)"
    by (simp add: get_message_def)
next
  assume u: "\<not> m_isRead m"
  let ?m' = "m\<lparr>m_isRead := True, m_readAt := Some now, m_updatedAt := now\<rparr>"
  from assms(1) obtain i where i: "castObjectId idParam = Some i"
    and f: "find (\<lambda>d. m_id d = i) store = Some m"
    by (auto simp: findById_def split: option.splits)
  from find_first_index[OF f] obtain k where k: "k < length store" "store ! k = m" "m_id m = i"
    "\<forall>y. replace_first (\<lambda>d. m_id d = i) y store = store[k := y]"
    "\<forall>y. m_id y = i \<longrightarrow> find (\<lambda>d. m_id d = i) (store[k := y]) = Some y"
    by blast
  have v: "validate_message e (m\<lparr>m_isRead := True, m_readAt := Some now\<rparr>)"
    using assms(2) by (simp add: validate_message_def)
  have n: "m\<lparr>m_isRead := True, m_readAt := Some now\<rparr> \<noteq> m"
  proof
    assume "m\<lparr>m_isRead := True, m_readAt := Some now\<rparr> = m"
    then have "m_isRead (m\<lparr>m_isRead := True, m_readAt := Some now\<rparr>) = m_isRead m"
      by simp
    with u show False by simp
  qed
  have "save_existing e now m (m\<lparr>m_isRead := True, m_readAt := Some now\<rparr>) store
          = Inr (?m', store[k := ?m'])"
    using v n k(3,4) by (simp add: save_existing_def Let_def)
  with assms(1) u have g: "get_message e now idParam store = (Success 200 ?m', store[k := ?m'])"
    by (simp add: get_message_def)
  have "m_id ?m' = i"
    using k(3) by simp
  with k(5) have "find (\<lambda>d. m_id d = i) (store[k := ?m']) = Some ?m'"
    by blast
  with i have h: "findById m_id idParam (store[k := ?m']) = Inr (Some ?m')"
    by (simp add: findById_def)
  from k(1,2) g h
  show "\<exists>k < length store.
           store ! k = m
           \<and> get_message e now idParam store = (Success 200 ?m', store[k := ?m'])
           \<and> findById m_id idParam (store[k := ?m']) = Inr (Some ?m')"
    by blast
qed

lemma fetch_sample:
  "findById m_id ''64b7f0c2a1b2c3d4e5f60002'' sample_inbox
   = Inr (Some (sample_message ''64b7f0c2a1b2c3d4e5f60002'' False))"
  "validate_message sample_env (sample_message ''64b7f0c2a1b2c3d4e5f60002'' False)"
  "m_isRead (sample_message ''64b7f0c2a1b2c3d4e5f60002'' False) = False"
  by code_simp+

theorem fetch_marks_read_witness:
  "findById m_id ''64b7f0c2a1b2c3d4e5f60002'' sample_inbox
   = Inr (Some (sample_message ''64b7f0c2a1b2c3d4e5f60002'' False))
   \<and> validate_message sample_env (sample_message ''64b7f0c2a1b2c3d4e5f60002'' False)
   \<and> m_isRead (sample_message ''64b7f0c2a1b2c3d4e5f60002'' False) = False
   \<and> fst (get_message sample_env 9 ''64b7f0c2a1b2c3d4e5f60002'' sample_inbox)
       = Success 200
           ((sample_message ''64b7f0c2a1b2c3d4e5f60002'' False)
              \<lparr>m_isRead := True, m_readAt := Some 9, m_updatedAt := 9\<rparr>)"
proof -
  have u: "\<not> m_isRead (sample_message ''64b7f0c2a1b2c3d4e5f60002'' False)"
    by (simp add: fetch_sample(3))
  from fetch_marks_read[OF fetch_sample(1,2), of 9] u
  obtain k where
    "get_message sample_env 9 ''64b7f0c2a1b2c3d4e5f60002'' sample_inbox
     = (Success 200
          ((sample_message ''64b7f0c2a1b2c3d4e5f60002'' False)
             \<lparr>m_isRead := True, m_readAt := Some 9, m_updatedAt := 9\<rparr>),
        sample_inbox
          [k := (sample_message ''64b7f0c2a1b2c3d4e5f60002'' False)
             \<lparr>m_isRead := True, m_readAt := Some 9, m_updatedAt := 9\<rparr>])"
    by blast
  then have "fst (get_message sample_env 9 ''64b7f0c2a1b2c3d4e5f60002'' sample_inbox)
       = Success 200
           ((sample_message ''64b7f0c2a1b2c3d4e5f60002'' False)
              \<lparr>m_isRead := True, m_readAt := Some 9, m_updatedAt := 9\<rparr>)"
    by simp
  with fetch_sample(1,2,3) show ?thesis
    by blast
qed

text \<open>
  The claim as the specification words it fails: the second message of the sample
  inbox is unread, and after it is fetched at time 9 the stored document's
  \<open>updatedAt\<close>, a field other than \<open>isRead\<close> and \<open>readAt\<close>, is 9 where it was 1.
\<close>

lemma fetch_sample_dates:
  "findById m_id ''64b7f0c2a1b2c3d4e5f60002'' sample_inbox = Inr (Some (sample_inbox ! 1))"
  "m_isRead (sample_inbox ! 1) = False"
  "m_updatedAt (sample_inbox ! 1) = 1"
  "m_updatedAt (snd (get_message sample_env 9 ''64b7f0c2a1b2c3d4e5f60002'' sample_inbox) ! 1) = 9"
  "m_updatedAt (snd (get_message sample_env 9 ''64b7f0c2a1b2c3d4e5f60002'' sample_inbox) ! 1)
     \<noteq> m_updatedAt (sample_inbox ! 1)"
  by code_simp+

theorem fetch_changes_updatedAt:
  "findById m_id ''64b7f0c2a1b2c3d4e5f60002'' sample_inbox = Inr (Some (sample_inbox ! 1))
   \<and> m_isRead (sample_inbox ! 1) = False
   \<and> m_updatedAt (sample_inbox ! 1) = 1
   \<and> m_updatedAt (snd (get_message sample_env 9 ''64b7f0c2a1b2c3d4e5f60002'' sample_inbox) ! 1) = 9
   \<and> m_updatedAt (snd (get_message sample_env 9 ''64b7f0c2a1b2c3d4e5f60002'' sample_inbox) ! 1)
       \<noteq> m_updatedAt (sample_inbox ! 1)"
  using fetch_sample_dates by blast

subsection \<open>The classifier depends on its three inputs only\<close>

lemma build_message_data_priority:
  "md_priority (build_message_data e req) =
     classify (trim (text_of (b_subject (rq_body req))))
              (trim (text_of (b_message (rq_body req))))
              (b_category (rq_body req))"
  by (simp add: build_message_data_def sanitize_body_def Let_def text_of_def)

lemma post_message_Success_priority:
  assumes "post_message e now newId req store = (Success c p, store')"
  shows "cr_priority p = md_priority (build_message_data e req)"
proof -
  from assms obtain saved where
    s: "save_new e now (new_Message newId (build_message_data e req)) store = Inr (saved, store')"
    and p: "cr_priority p = m_priority saved"
    by (auto simp: post_message_def split: if_splits sum.splits)
  from save_new_result(3)[OF s] p show ?thesis
    by (simp add: new_Message_priority)
qed

text \<open>
  C9. The label that \<open>POST /api/messages\<close> puts into \<open>messageData\<close> is the
  classifier applied to the request's subject, message and category: two requests
  that agree on these three get the same label, whatever the library, the clock, the
  drawn \<open>_id\<close>, the other fields of the request and the stored collection are; and
  when both are answered with success the answers carry the same priority.
\<close>

theorem classifier_deterministic:
  assumes "b_subject (rq_body r1) = b_subject (rq_body r2)"
      and "b_message (rq_body r1) = b_message (rq_body r2)"
      and "b_category (rq_body r1) = b_category (rq_body r2)"
  shows
    "md_priority (build_message_data e1 r1) = md_priority (build_message_data e2 r2)
     \<and> md_priority (build_message_data e1 r1) =
         classify (trim (text_of (b_subject (rq_body r1))))
                  (trim (text_of (b_message (rq_body r1))))
                  (b_category (rq_body r1))
     \<and> (post_message e1 n1 i1 r1 s1 = (Success c1 p1, s1')
          \<and> post_message e2 n2 i2 r2 s2 = (Success c2 p2, s2')
        \<longrightarrow> cr_priority p1 = cr_priority p2)"
proof (intro conjI impI)
  show eq: "md_priority (build_message_data e1 r1) = md_priority (build_message_data e2 r2)"
    using assms by (simp add: build_message_data_priority)
  show "md_priority (build_message_data e1 r1) =
         classify (trim (text_of (b_subject (rq_body r1))))
                  (trim (text_of (b_message (rq_body r1))))
                  (b_category (rq_body r1))"
    by (rule build_message_data_priority)
  assume "post_message e1 n1 i1 r1 s1 = (Success c1 p1, s1')
          \<and> post_message e2 n2 i2 r2 s2 = (Success c2 p2, s2')"
  then have a1: "post_message e1 n1 i1 r1 s1 = (Success c1 p1, s1')"
    and a2: "post_message e2 n2 i2 r2 s2 = (Success c2 p2, s2')"
    by simp_all
  from post_message_Success_priority[OF a1] post_message_Success_priority[OF a2] eq
  show "cr_priority p1 = cr_priority p2"
    by simp
qed

lemma determinism_sample:
  "b_subject (rq_body (contact_form ''issue'' ''bad service'' (Some ''complaint'')))
     = b_subject (rq_body (other_form ''issue'' ''bad service'' (Some ''complaint'')))"
  "b_message (rq_body (contact_form ''issue'' ''bad service'' (Some ''complaint'')))
     = b_message (rq_body (other_form ''issue'' ''bad service'' (Some ''complaint'')))"
  "b_category (rq_body (contact_form ''issue'' ''bad service'' (Some ''complaint'')))
     = b_category (rq_body (other_form ''issue'' ''bad service'' (Some ''complaint'')))"
  "md_priority (build_message_data sample_env
      (contact_form ''issue'' ''bad service'' (Some ''complaint''))) = ''high''"
  "post_message sample_env 10 ''64b7f0c2a1b2c3d4e5f60003''
     (contact_form ''issue'' ''bad service'' (Some ''complaint'')) []
   = (Success 201
        \<lparr> cr_id = ''64b7f0c2a1b2c3d4e5f60003'', cr_name = ''Amina'', cr_subject = ''issue'',
          cr_priority = ''high'', cr_createdAt = 10 \<rparr>,
      snd (post_message sample_env 10 ''64b7f0c2a1b2c3d4e5f60003''
             (contact_form ''issue'' ''bad service'' (Some ''complaint'')) []))"
  "post_message (sample_env\<lparr>normalizeEmail := id\<rparr>) 20 ''64b7f0c2a1b2c3d4e5f60004''
     (other_form ''issue'' ''bad service'' (Some ''complaint'')) sample_inbox
   = (Success 201
        \<lparr> cr_id = ''64b7f0c2a1b2c3d4e5f60004'', cr_name = ''Omar'', cr_subject = ''issue'',
          cr_priority = ''high'', cr_createdAt = 20 \<rparr>,
      snd (post_message (sample_env\<lparr>normalizeEmail := id\<rparr>) 20 ''64b7f0c2a1b2c3d4e5f60004''
             (other_form ''issue'' ''bad service'' (Some ''complaint'')) sample_inbox))"
  by code_simp+

theorem classifier_deterministic_witness:
  "b_subject (rq_body (contact_form ''issue'' ''bad service'' (Some ''complaint'')))
     = b_subject (rq_body (other_form ''issue'' ''bad service'' (Some ''complaint'')))
   \<and> b_message (rq_body (contact_form ''issue'' ''bad service'' (Some ''complaint'')))
     = b_message (rq_body (other_form ''issue'' ''bad service'' (Some ''complaint'')))
   \<and> b_category (rq_body (contact_form ''issue'' ''bad service'' (Some ''complaint'')))
     = b_category (rq_body (other_form ''issue'' ''bad service'' (Some ''complaint'')))
   \<and> md_priority (build_message_data sample_env
        (contact_form ''issue'' ''bad service'' (Some ''complaint''))) = ''high''
   \<and> md_priority (build_message_data (sample_env\<lparr>normalizeEmail := id\<rparr>)
        (other_form ''issue'' ''bad service'' (Some ''complaint''))) = ''high''"
proof -
  from classifier_deterministic[OF determinism_sample(1,2,3),
      of sample_env "sample_env\<lparr>normalizeEmail := id\<rparr>"]
  have "md_priority (build_message_data sample_env
          (contact_form ''issue'' ''bad service'' (Some ''complaint'')))
        = md_priority (build_message_data (sample_env\<lparr>normalizeEmail := id\<rparr>)
          (other_form ''issue'' ''bad service'' (Some ''complaint'')))"
    by blast
  with determinism_sample(1,2,3,4) show ?thesis
    by simp
qed

subsection \<open>The unread count of the dashboard\<close>

lemma no_read_path: "message_field m ''read'' = None"
  by (simp add: message_field_def)

lemma isRead_path: "message_field m ''isRead'' = Some (VBool (m_isRead m))"
  by (simp add: message_field_def)

text \<open>
  C10. The overview counts the messages that satisfy \<open>{read: false}\<close>; no stored
  message has a path \<open>read\<close> (the schema's flag is \<open>isRead\<close>), so the reported
  \<open>unreadMessages\<close> count is 0 for every database, whatever the number of messages
  whose \<open>isRead\<close> is false, which is what a count on \<open>isRead\<close> gives.
\<close>

theorem unread_count_is_zero:
  "st_unreadMessages (dashboard_overview db) = 0
   \<and> st_messages (dashboard_overview db) = length (db_messages db)
   \<and> countDocuments [(''isRead'', VBool False)] (db_messages db)
       = length (filter (\<lambda>m. \<not> m_isRead m) (db_messages db))"
proof -
  have "satisfies [(''read'', VBool False)] m = False" for m
    by (simp add: satisfies_def no_read_path)
  then have a: "countDocuments [(''read'', VBool False)] (db_messages db) = 0"
    by (simp add: countDocuments_def)
  have b: "countDocuments [] (db_messages db) = length (db_messages db)"
    by (simp add: countDocuments_def satisfies_def)
  have "satisfies [(''isRead'', VBool False)] = (\<lambda>m. \<not> m_isRead m)"
    by (rule ext) (simp add: satisfies_def isRead_path)
  then have c: "countDocuments [(''isRead'', VBool False)] (db_messages db)
       = length (filter (\<lambda>m. \<not> m_isRead m) (db_messages db))"
    by (simp add: countDocuments_def)
  from a b c show ?thesis
    by (simp add: dashboard_overview_def)
qed

lemma dashboard_sample:
  "length (db_messages sample_database) = 3"
  "length (filter (\<lambda>m. \<not> m_isRead m) (db_messages sample_database)) = 2"
  by code_simp+

theorem unread_count_is_zero_witness:
  "st_unreadMessages (dashboard_overview sample_database) = 0
   \<and> st_messages (dashboard_overview sample_database) = 3
   \<and> length (filter (\<lambda>m. \<not> m_isRead m) (db_messages sample_database)) = 2"
  using unread_count_is_zero[of sample_database] dashboard_sample
  by simp

end
